theory Spec2Isabelle
  imports Complex_Main
begin

section \<open>The driver monitor of camera.py\<close>

text \<open>
  The monitor of \<^verbatim>\<open>camera.py\<close> is a Python object that the main loop mutates once
  per camera frame. Here it is a record, each method is a function from the record to the
  updated record, and every call of \<^verbatim>\<open>time.time()\<close> is a parameter of the method
  that makes it: the first parameter is the method's own reading, the second one (where
  there is one) is the later reading made further down the same call.

  Python floats are read as real numbers: rounding, infinities and NaN are outside the
  model, and the literals \<^verbatim>\<open>0.6\<close> or \<^verbatim>\<open>0.7\<close> are the rationals they
  denote.
\<close>

subsection \<open>Constants\<close>

definition MAR_THRESHOLD :: real where "MAR_THRESHOLD = 0.6"
definition MICROSLEEP_TIME :: real where "MICROSLEEP_TIME = 2.0"
definition BLINK_WINDOW :: real where "BLINK_WINDOW = 60"
definition BLINK_RATE_THRESHOLD :: nat where "BLINK_RATE_THRESHOLD = 20"
definition STATE_HOLD_TIME :: real where "STATE_HOLD_TIME = 1.0"
definition CALIBRATION_TIME :: real where "CALIBRATION_TIME = 5.0"
definition FACE_LOST_TIME :: real where "FACE_LOST_TIME = 2.0"
definition ALARM_COOLDOWN :: real where "ALARM_COOLDOWN = 1.0"

lemmas const_defs =
  MAR_THRESHOLD_def MICROSLEEP_TIME_def BLINK_WINDOW_def BLINK_RATE_THRESHOLD_def
  STATE_HOLD_TIME_def CALIBRATION_TIME_def FACE_LOST_TIME_def ALARM_COOLDOWN_def

subsection \<open>Errors\<close>

text \<open>
  The exceptions the modelled code can raise: comparing a float with \<^verbatim>\<open>None\<close>
  (\<^verbatim>\<open>TypeError\<close>), indexing a contour that is too short (\<^verbatim>\<open>IndexError\<close>) and
  dividing by zero (\<^verbatim>\<open>ZeroDivisionError\<close>). A raised exception is the left summand.
\<close>

datatype error = TypeError | IndexError | ZeroDivisionError

definition truediv :: "real \<Rightarrow> real \<Rightarrow> error + real" where
  "truediv a b = (if b = 0 then Inl ZeroDivisionError else Inr (a / b))"

subsection \<open>Aspect ratios\<close>

type_synonym point = "real \<times> real"

text \<open>\<^verbatim>\<open>math.dist\<close> on two 2-tuples.\<close>

definition euclidean_dist :: "point \<Rightarrow> point \<Rightarrow> real" where
  "euclidean_dist p1 p2 = sqrt ((fst p1 - fst p2)\<^sup>2 + (snd p1 - snd p2)\<^sup>2)"

text \<open>
  A contour is a Python list of points. Every index used is a constant between 0 and 5,
  so a list shorter than six raises \<^verbatim>\<open>IndexError\<close> at one of the three distance lines.
\<close>

definition eye_aspect_ratio :: "point list \<Rightarrow> error + real" where
  "eye_aspect_ratio eye =
     (if length eye < 6 then Inl IndexError
      else let A = euclidean_dist (eye ! 1) (eye ! 5);
               B = euclidean_dist (eye ! 2) (eye ! 4);
               C = euclidean_dist (eye ! 0) (eye ! 3)
           in if C = 0 then Inr 0 else truediv (A + B) (2.0 * C))"

definition mouth_aspect_ratio :: "point list \<Rightarrow> error + real" where
  "mouth_aspect_ratio mouth =
     (if length mouth < 6 then Inl IndexError
      else let A = euclidean_dist (mouth ! 1) (mouth ! 5);
               B = euclidean_dist (mouth ! 2) (mouth ! 4);
               C = euclidean_dist (mouth ! 0) (mouth ! 3)
           in if C = 0 then Inr 0 else truediv (A + B) (2.0 * C))"

subsection \<open>The monitor object\<close>

datatype mstate = CALIBRATING | NORMAL | DROWSY | DANGER

text \<open>
  The fields of \<^verbatim>\<open>DriverMonitor\<close>, in the order of \<^verbatim>\<open>__init__\<close>. The deque of blink
  timestamps is a list whose head is the left end. The last field is not a field of the
  class: it is the effect of \<^verbatim>\<open>trigger_alarm\<close> on the world, the instants at which a
  beep thread was started, oldest first.
\<close>

record monitor =
  blink_timestamps :: "real list"
  eyes_closed_prev :: bool
  eye_close_start :: "real option"
  face_lost_start :: "real option"
  state :: mstate
  state_change_time :: real
  ear_threshold :: "real option"
  calibration_values :: "real list"
  calibration_start :: real
  last_alarm_time :: real
  beeps :: "real list"

text \<open>\<^verbatim>\<open>__init__\<close> reads the clock twice.\<close>

definition init :: "real \<Rightarrow> real \<Rightarrow> monitor" where
  "init t0 t1 =
     \<lparr> blink_timestamps = [], eyes_closed_prev = False, eye_close_start = None,
       face_lost_start = None, state = CALIBRATING, state_change_time = t0,
       ear_threshold = None, calibration_values = [], calibration_start = t1,
       last_alarm_time = 0.0, beeps = [] \<rparr>"

subsection \<open>Calibration\<close>

text \<open>
  \<^verbatim>\<open>calibrate\<close> reads the clock for the test (\<open>t\<close>) and, when the test passes, once
  more for the hold timer (\<open>t'\<close>).
\<close>

definition calibrate :: "real \<Rightarrow> real \<Rightarrow> real \<Rightarrow> monitor \<Rightarrow> error + monitor" where
  "calibrate t t' ear m =
     (let m1 = m\<lparr>calibration_values := calibration_values m @ [ear]\<rparr>
      in if t - calibration_start m1 \<ge> CALIBRATION_TIME
         then (case truediv (sum_list (calibration_values m1))
                            (real (length (calibration_values m1))) of
                 Inl e \<Rightarrow> Inl e
               | Inr avg_ear \<Rightarrow>
                   Inr (m1\<lparr>ear_threshold := Some (0.7 * avg_ear), state := NORMAL,
                           state_change_time := t'\<rparr>))
         else Inr m1)"

subsection \<open>Alarm\<close>

definition trigger_alarm :: "real \<Rightarrow> monitor \<Rightarrow> monitor" where
  "trigger_alarm now m =
     (if now - last_alarm_time m > ALARM_COOLDOWN
      then m\<lparr>last_alarm_time := now, beeps := beeps m @ [now]\<rparr>
      else m)"

subsection \<open>Face lost\<close>

definition handle_face_lost :: "real \<Rightarrow> real \<Rightarrow> monitor \<Rightarrow> monitor" where
  "handle_face_lost now now' m =
     (case face_lost_start m of
        None \<Rightarrow> m\<lparr>face_lost_start := Some now\<rparr>
      | Some s \<Rightarrow>
          if now - s \<ge> FACE_LOST_TIME
          then trigger_alarm now' (m\<lparr>state := DANGER\<rparr>)
          else m)"

subsection \<open>State update\<close>

text \<open>Lines 93 to 100, with the threshold already known to be a number.\<close>

definition blink_closure :: "real \<Rightarrow> real \<Rightarrow> real \<Rightarrow> monitor \<Rightarrow> monitor" where
  "blink_closure now ear thr m =
     (if ear < thr
      then (if \<not> eyes_closed_prev m
            then m\<lparr>blink_timestamps := blink_timestamps m @ [now],
                   eyes_closed_prev := True, eye_close_start := Some now\<rparr>
            else m)
      else m\<lparr>eyes_closed_prev := False, eye_close_start := None\<rparr>)"

text \<open>The \<^verbatim>\<open>while\<close> loop of lines 103 and 104: pop from the left while the head is old.\<close>

fun prune :: "real \<Rightarrow> real list \<Rightarrow> real list" where
  "prune now [] = []"
| "prune now (t # ts) = (if now - t > BLINK_WINDOW then prune now ts else t # ts)"

definition pruned :: "real \<Rightarrow> monitor \<Rightarrow> monitor" where
  "pruned now m = m\<lparr>blink_timestamps := prune now (blink_timestamps m)\<rparr>"

text \<open>
  The test of line 109. \<^verbatim>\<open>self.eye_close_start and ...\<close> reads the start instant as
  a truth value: \<^verbatim>\<open>None\<close> is false, and so is the float \<^verbatim>\<open>0.0\<close>.
\<close>

definition microsleep :: "real \<Rightarrow> monitor \<Rightarrow> bool" where
  "microsleep now m =
     (case eye_close_start m of
        None \<Rightarrow> False
      | Some s \<Rightarrow> s \<noteq> 0 \<and> now - s \<ge> MICROSLEEP_TIME)"

definition new_state :: "nat \<Rightarrow> real \<Rightarrow> mstate" where
  "new_state blink_rate mar =
     (if blink_rate > BLINK_RATE_THRESHOLD \<or> mar > MAR_THRESHOLD then DROWSY else NORMAL)"

text \<open>Lines 117 to 122.\<close>

definition hold :: "real \<Rightarrow> mstate \<Rightarrow> monitor \<Rightarrow> monitor" where
  "hold now ns m =
     (if ns \<noteq> state m
      then (if now - state_change_time m > STATE_HOLD_TIME
            then m\<lparr>state := ns, state_change_time := now\<rparr>
            else m)
      else m\<lparr>state_change_time := now\<rparr>)"

text \<open>
  \<^verbatim>\<open>update_state\<close> returns the blink rate beside the updated monitor. \<open>now\<close> is its
  own clock reading, \<open>now'\<close> the one \<^verbatim>\<open>trigger_alarm\<close> makes on the emergency path.
  With the threshold still \<^verbatim>\<open>None\<close>, line 93 raises \<^verbatim>\<open>TypeError\<close>.
\<close>

definition update_state ::
  "real \<Rightarrow> real \<Rightarrow> real \<Rightarrow> real \<Rightarrow> monitor \<Rightarrow> error + (monitor \<times> nat)" where
  "update_state now now' ear mar m =
     (case ear_threshold m of
        None \<Rightarrow> Inl TypeError
      | Some thr \<Rightarrow>
          let m1 = blink_closure now ear thr m;
              m2 = pruned now m1;
              blink_rate = length (blink_timestamps m2)
          in if microsleep now m2
             then Inr (trigger_alarm now' (m2\<lparr>state := DANGER\<rparr>), blink_rate)
             else Inr (hold now (new_state blink_rate mar) m2, blink_rate))"

subsection \<open>The main loop\<close>

text \<open>
  What the landmark detector hands to one iteration of the loop: no face, or the three
  six-point contours cut out of the first face.
\<close>

datatype detection = NoFace | Face "point list" "point list" "point list"

text \<open>Lines 157 to 159: the eye ratio is the mean of both eyes.\<close>

definition face_ratios :: "point list \<Rightarrow> point list \<Rightarrow> point list \<Rightarrow> error + (real \<times> real)" where
  "face_ratios left_eye right_eye mouth =
     (case eye_aspect_ratio left_eye of
        Inl e \<Rightarrow> Inl e
      | Inr l \<Rightarrow>
          (case eye_aspect_ratio right_eye of
             Inl e \<Rightarrow> Inl e
           | Inr r \<Rightarrow>
               (case mouth_aspect_ratio mouth of
                  Inl e \<Rightarrow> Inl e
                | Inr mar \<Rightarrow> Inr ((l + r) / 2.0, mar))))"

text \<open>
  One iteration, lines 145 to 167, without the drawing. \<open>t\<close> and \<open>t'\<close> are the clock
  readings of the method that the iteration calls; the reading of line 162 only feeds the
  overlay text.
\<close>

fun loop_body :: "detection \<Rightarrow> real \<Rightarrow> real \<Rightarrow> monitor \<Rightarrow> error + monitor" where
  "loop_body NoFace t t' m = Inr (handle_face_lost t t' m)"
| "loop_body (Face left_eye right_eye mouth) t t' m =
     (let m0 = m\<lparr>face_lost_start := None\<rparr>
      in case face_ratios left_eye right_eye mouth of
           Inl e \<Rightarrow> Inl e
         | Inr (ear, mar) \<Rightarrow>
             if state m0 = CALIBRATING
             then calibrate t t' ear m0
             else (case update_state t t' ear mar m0 of
                     Inl e \<Rightarrow> Inl e
                   | Inr (m', blink_rate) \<Rightarrow> Inr m'))"

text \<open>
  The loop over the frames the camera delivers, each with its two clock readings. An
  exception ends the program.
\<close>

fun run :: "(detection \<times> real \<times> real) list \<Rightarrow> monitor \<Rightarrow> error + monitor" where
  "run [] m = Inr m"
| "run ((d, t, t') # fs) m =
     (case loop_body d t t' m of
        Inl e \<Rightarrow> Inl e
      | Inr m' \<Rightarrow> run fs m')"

subsection \<open>The ratio as the specification words it\<close>

text \<open>
  The specification gives the ratio as \<open>(|p1 - p5| + |p2 - p4|) / (2 |p0 - p3|)\<close> under
  Euclidean distance, and 0 when \<open>|p0 - p3|\<close> is zero. Here the Euclidean distance is the
  metric of the complex plane, not the square root written in \<open>euclidean_dist\<close>.
\<close>

definition planar_dist :: "point \<Rightarrow> point \<Rightarrow> real" where
  "planar_dist p q = dist (Complex (fst p) (snd p)) (Complex (fst q) (snd q))"

definition spec_aspect_ratio :: "point list \<Rightarrow> real" where
  "spec_aspect_ratio c =
     (if planar_dist (c ! 0) (c ! 3) = 0 then 0
      else (planar_dist (c ! 1) (c ! 5) + planar_dist (c ! 2) (c ! 4))
             / (2 * planar_dist (c ! 0) (c ! 3)))"

subsection \<open>Sample contours\<close>

text \<open>
  Two contours with distances 0 and 1 only: the first has ratio 1 (an open eye, a yawning
  mouth), the second has ratio 0 (a shut eye, a closed mouth).
\<close>

definition open_contour :: "point list" where
  "open_contour = [(0, 0), (0, 1), (0, 1), (1, 0), (0, 0), (0, 0)]"

definition shut_contour :: "point list" where
  "shut_contour = [(0, 0), (0, 0), (0, 0), (1, 0), (0, 0), (0, 0)]"

subsection \<open>The alarm log\<close>

text \<open>
  What every state of a run satisfies: the logged firings are pairwise further apart than
  the cooldown, and none is later than the last-fired instant.
\<close>

definition alarm_inv :: "monitor \<Rightarrow> bool" where
  "alarm_inv m \<longleftrightarrow>
     sorted_wrt (\<lambda>a b. b - a > ALARM_COOLDOWN) (beeps m) \<and>
     (\<forall>b \<in> set (beeps m). b \<le> last_alarm_time m)"

text \<open>A loss of the face over four frames, with two firings.\<close>

definition four_absences :: "(detection \<times> real \<times> real) list" where
  "four_absences = [(NoFace, 0, 0), (NoFace, 2, 2), (NoFace, 5/2, 5/2), (NoFace, 7/2, 7/2)]"

subsection \<open>Frames\<close>

text \<open>
  A frame is what one iteration of the loop consumes: the detection and the two clock
  readings. Its instant is the first reading; its ratios are the eye and mouth ratios of
  the face it shows; the samples of a list of frames are the eye ratios of those that
  show a face.
\<close>

definition instant :: "detection \<times> real \<times> real \<Rightarrow> real" where
  "instant f = fst (snd f)"

definition ratios_of :: "detection \<times> real \<times> real \<Rightarrow> (real \<times> real) option" where
  "ratios_of f =
     (case fst f of
        NoFace \<Rightarrow> None
      | Face l r mo \<Rightarrow> (case face_ratios l r mo of Inl e \<Rightarrow> None | Inr x \<Rightarrow> Some x))"

definition eyes_shut :: "real \<Rightarrow> detection \<times> real \<times> real \<Rightarrow> bool" where
  "eyes_shut thr f = (case ratios_of f of None \<Rightarrow> False | Some (ear, mar) \<Rightarrow> ear < thr)"

definition samples :: "(detection \<times> real \<times> real) list \<Rightarrow> real list" where
  "samples fs = List.map_filter (\<lambda>f. map_option fst (ratios_of f)) fs"

text \<open>
  What calibration guarantees in every state of a run: a threshold that is set is 0.7
  times the mean of the collected samples, and the monitor has left CALIBRATING.
\<close>

definition cal_inv :: "monitor \<Rightarrow> bool" where
  "cal_inv m =
     (case ear_threshold m of
        None \<Rightarrow> True
      | Some thr \<Rightarrow>
          state m \<noteq> CALIBRATING \<and> calibration_values m \<noteq> [] \<and>
          thr = 0.7 * (sum_list (calibration_values m) / real (length (calibration_values m))))"

subsection \<open>Sample frames, monitors and runs\<close>

text \<open>
  Frames at instant \<open>t\<close> (both clock readings equal): eyes open and mouth closed, eyes
  shut and mouth closed, eyes open and mouth wide open.
\<close>

definition open_at :: "real \<Rightarrow> detection \<times> real \<times> real" where
  "open_at t = (Face open_contour open_contour shut_contour, t, t)"

definition shut_at :: "real \<Rightarrow> detection \<times> real \<times> real" where
  "shut_at t = (Face shut_contour shut_contour shut_contour, t, t)"

definition yawn_at :: "real \<Rightarrow> detection \<times> real \<times> real" where
  "yawn_at t = (Face open_contour open_contour open_contour, t, t)"

text \<open>
  A monitor made at clock reading 0 and calibrated by one open-eyed frame at 5; the same
  after a blink onset at 6; and after blinks at 6, 30 and 65 and an open-eyed frame at 66.
\<close>

definition awake :: monitor where
  "awake = (init 0 0)\<lparr>calibration_values := [1], ear_threshold := Some (7/10),
             state := NORMAL, state_change_time := 5\<rparr>"

definition blinking :: monitor where
  "blinking = awake\<lparr>blink_timestamps := [6], eyes_closed_prev := True,
                eye_close_start := Some 6, state_change_time := 6\<rparr>"

definition blinked :: monitor where
  "blinked = awake\<lparr>blink_timestamps := [6, 30, 65], state_change_time := 66\<rparr>"

text \<open>
  A monitor made at clock reading -6 and calibrated at -1, whose eyes shut at clock
  reading 0.
\<close>

definition dozing :: monitor where
  "dozing = \<lparr> blink_timestamps = [0], eyes_closed_prev = True, eye_close_start = Some 0,
               face_lost_start = None, state = NORMAL, state_change_time = 0,
               ear_threshold = Some (7/10), calibration_values = [1], calibration_start = - 6,
               last_alarm_time = 0, beeps = [] \<rparr>"

text \<open>The run that leads there, with the eyes still shut at 2.5.\<close>

definition zero_onset :: "(detection \<times> real \<times> real) list" where
  "zero_onset = [open_at (- 1), shut_at 0, shut_at (5/2)]"

text \<open>The same frames with the eyes shutting at 1 and still shut at 3.5.\<close>

definition late_onset :: "(detection \<times> real \<times> real) list" where
  "late_onset = [open_at (- 1), shut_at 1, shut_at (7/2)]"

text \<open>No face on the first two frames of a fresh monitor, two seconds apart.\<close>

definition early_absence :: "(detection \<times> real \<times> real) list" where
  "early_absence = [(NoFace, 0, 0), (NoFace, 2, 2)]"

text \<open>A fresh monitor after one frame without a face at clock reading 1.\<close>

definition lost_at_one :: monitor where
  "lost_at_one = (init 0 0)\<lparr>face_lost_start := Some 1\<rparr>"

text \<open>Calibration, a blink at 6 and another at 70.\<close>

definition long_drive :: "(detection \<times> real \<times> real) list" where
  "long_drive = [open_at 5, shut_at 6, open_at 7, shut_at 70]"

lemmas method_defs =
  init_def calibrate_def trigger_alarm_def handle_face_lost_def blink_closure_def
  pruned_def microsleep_def new_state_def hold_def update_state_def face_ratios_def
  eye_aspect_ratio_def mouth_aspect_ratio_def euclidean_dist_def truediv_def
  open_contour_def shut_contour_def const_defs

section \<open>Aspect ratios\<close>

lemma euclidean_dist_planar: "euclidean_dist p q = planar_dist p q"
  by (simp add: euclidean_dist_def planar_dist_def dist_norm cmod_def)

lemma euclidean_dist_nonneg: "0 \<le> euclidean_dist p q"
  by (simp add: euclidean_dist_def)

lemma spec_aspect_ratio_nonneg: "0 \<le> spec_aspect_ratio c"
  by (simp add: spec_aspect_ratio_def planar_dist_def)

lemma eye_aspect_ratio_spec:
  "length c = 6 \<Longrightarrow> eye_aspect_ratio c = Inr (spec_aspect_ratio c)"
  by (simp add: eye_aspect_ratio_def spec_aspect_ratio_def euclidean_dist_planar
      truediv_def Let_def)

lemma mouth_aspect_ratio_spec:
  "length c = 6 \<Longrightarrow> mouth_aspect_ratio c = Inr (spec_aspect_ratio c)"
  by (simp add: mouth_aspect_ratio_def spec_aspect_ratio_def euclidean_dist_planar
      truediv_def Let_def)

lemma face_ratios_open: "face_ratios open_contour open_contour shut_contour = Inr (1, 0)"
  by (simp add: method_defs)

lemma face_ratios_shut: "face_ratios shut_contour shut_contour shut_contour = Inr (0, 0)"
  by (simp add: method_defs)

lemma face_ratios_yawn: "face_ratios open_contour open_contour open_contour = Inr (1, 1)"
  by (simp add: method_defs)

text \<open>
  Claim C9. On every contour of six points both ratio functions return, without raising,
  the value the specification's formula gives under Euclidean distance; the value is not
  negative; and when the horizontal distance \<open>|p0 - p3|\<close> is zero they return exactly 0
  instead of raising a division error.
\<close>

theorem aspect_ratio_total:
  "length c = 6 \<Longrightarrow>
     eye_aspect_ratio c = Inr (spec_aspect_ratio c) \<and>
     mouth_aspect_ratio c = Inr (spec_aspect_ratio c) \<and>
     0 \<le> spec_aspect_ratio c \<and>
     (planar_dist (c ! 0) (c ! 3) = 0 \<longrightarrow>
        eye_aspect_ratio c = Inr 0 \<and> mouth_aspect_ratio c = Inr 0)"
  by (simp add: eye_aspect_ratio_spec mouth_aspect_ratio_spec spec_aspect_ratio_nonneg)
    (simp add: spec_aspect_ratio_def)

theorem aspect_ratio_total_witness:
  "length open_contour = 6 \<and> eye_aspect_ratio open_contour = Inr 1 \<and>
   mouth_aspect_ratio open_contour = Inr 1 \<and>
   length [(2, 3), (0, 1), (0, 1), (2, 3), (0, 0), (0, 0) :: point] = 6 \<and>
   planar_dist ([(2, 3), (0, 1), (0, 1), (2, 3), (0, 0), (0, 0)] ! 0)
     ([(2, 3), (0, 1), (0, 1), (2, 3), (0, 0), (0, 0)] ! 3) = 0 \<and>
   eye_aspect_ratio [(2, 3), (0, 1), (0, 1), (2, 3), (0, 0), (0, 0)] = Inr 0 \<and>
   mouth_aspect_ratio [(2, 3), (0, 1), (0, 1), (2, 3), (0, 0), (0, 0)] = Inr 0"
  using aspect_ratio_total [of open_contour]
    aspect_ratio_total [of "[(2, 3), (0, 1), (0, 1), (2, 3), (0, 0), (0, 0)]"]
  by (simp add: open_contour_def spec_aspect_ratio_def planar_dist_def dist_norm cmod_def)

lemma frame_simps:
  "ratios_of (open_at t) = Some (1, 0)" "ratios_of (shut_at t) = Some (0, 0)"
  "ratios_of (yawn_at t) = Some (1, 1)"
  "instant (open_at t) = t" "instant (shut_at t) = t" "instant (yawn_at t) = t"
  by (simp_all add: ratios_of_def instant_def open_at_def shut_at_def yawn_at_def
      face_ratios_open face_ratios_shut face_ratios_yawn)

lemma eyes_shut_at: "eyes_shut (7/10) (shut_at t)"
  by (simp add: eyes_shut_def frame_simps)

lemmas run_defs =
  init_def calibrate_def trigger_alarm_def handle_face_lost_def blink_closure_def
  pruned_def microsleep_def new_state_def hold_def update_state_def truediv_def const_defs
  open_at_def shut_at_def yawn_at_def face_ratios_open face_ratios_shut face_ratios_yawn
  awake_def blinking_def blinked_def dozing_def

section \<open>What each method changes\<close>

lemma run_append:
  "run (fs @ gs) m = (case run fs m of Inl e \<Rightarrow> Inl e | Inr m' \<Rightarrow> run gs m')"
  by (induction fs arbitrary: m) (auto split: sum.splits)

lemma run_Cons:
  "run (f # fs) m =
     (case loop_body (fst f) (instant f) (snd (snd f)) m of
        Inl e \<Rightarrow> Inl e | Inr m' \<Rightarrow> run fs m')"
  by (cases f) (simp add: instant_def)

lemma loop_body_Face:
  "face_ratios l r mo = Inr (ear, mar) \<Longrightarrow>
     loop_body (Face l r mo) t t' m =
       (if state m = CALIBRATING then calibrate t t' ear (m\<lparr>face_lost_start := None\<rparr>)
        else (case update_state t t' ear mar (m\<lparr>face_lost_start := None\<rparr>) of
                Inl e \<Rightarrow> Inl e | Inr (m', blink_rate) \<Rightarrow> Inr m'))"
  by (simp add: Let_def)

lemma eyes_shut_ratios: "eyes_shut thr f \<Longrightarrow> \<exists>ear mar. ratios_of f = Some (ear, mar) \<and> ear < thr"
  by (auto simp: eyes_shut_def split: option.splits)

lemma calibrate_complete:
  "t - calibration_start m \<ge> CALIBRATION_TIME \<Longrightarrow>
     calibrate t t' ear m =
       Inr (m\<lparr>calibration_values := calibration_values m @ [ear],
              ear_threshold := Some (0.7 * (sum_list (calibration_values m @ [ear])
                                    / real (length (calibration_values m @ [ear])))),
              state := NORMAL, state_change_time := t'\<rparr>)"
  by (simp add: calibrate_def truediv_def Let_def)

lemma calibrate_early:
  "t - calibration_start m < CALIBRATION_TIME \<Longrightarrow>
     calibrate t t' ear m = Inr (m\<lparr>calibration_values := calibration_values m @ [ear]\<rparr>)"
  by (simp add: calibrate_def Let_def)

lemma trigger_alarm_fields:
  "blink_timestamps (trigger_alarm now m) = blink_timestamps m"
  "eyes_closed_prev (trigger_alarm now m) = eyes_closed_prev m"
  "eye_close_start (trigger_alarm now m) = eye_close_start m"
  "face_lost_start (trigger_alarm now m) = face_lost_start m"
  "state (trigger_alarm now m) = state m"
  "state_change_time (trigger_alarm now m) = state_change_time m"
  "ear_threshold (trigger_alarm now m) = ear_threshold m"
  "calibration_values (trigger_alarm now m) = calibration_values m"
  "calibration_start (trigger_alarm now m) = calibration_start m"
  by (simp_all add: trigger_alarm_def)

lemma hold_fields:
  "blink_timestamps (hold now ns m) = blink_timestamps m"
  "eyes_closed_prev (hold now ns m) = eyes_closed_prev m"
  "eye_close_start (hold now ns m) = eye_close_start m"
  "face_lost_start (hold now ns m) = face_lost_start m"
  "ear_threshold (hold now ns m) = ear_threshold m"
  "calibration_values (hold now ns m) = calibration_values m"
  "calibration_start (hold now ns m) = calibration_start m"
  "last_alarm_time (hold now ns m) = last_alarm_time m"
  "beeps (hold now ns m) = beeps m"
  by (simp_all add: hold_def)

lemma pruned_fields:
  "blink_timestamps (pruned now m) = prune now (blink_timestamps m)"
  "eyes_closed_prev (pruned now m) = eyes_closed_prev m"
  "eye_close_start (pruned now m) = eye_close_start m"
  "face_lost_start (pruned now m) = face_lost_start m"
  "state (pruned now m) = state m"
  "state_change_time (pruned now m) = state_change_time m"
  "ear_threshold (pruned now m) = ear_threshold m"
  "calibration_values (pruned now m) = calibration_values m"
  "calibration_start (pruned now m) = calibration_start m"
  "last_alarm_time (pruned now m) = last_alarm_time m"
  "beeps (pruned now m) = beeps m"
  by (simp_all add: pruned_def)

lemma blink_closure_fields:
  "face_lost_start (blink_closure now ear thr m) = face_lost_start m"
  "state (blink_closure now ear thr m) = state m"
  "state_change_time (blink_closure now ear thr m) = state_change_time m"
  "ear_threshold (blink_closure now ear thr m) = ear_threshold m"
  "calibration_values (blink_closure now ear thr m) = calibration_values m"
  "calibration_start (blink_closure now ear thr m) = calibration_start m"
  "last_alarm_time (blink_closure now ear thr m) = last_alarm_time m"
  "beeps (blink_closure now ear thr m) = beeps m"
  by (simp_all add: blink_closure_def)

lemma new_state_cases: "new_state n mar = DROWSY \<or> new_state n mar = NORMAL"
  by (simp add: new_state_def)

lemma hold_state: "state (hold now ns m) = state m \<or> state (hold now ns m) = ns"
  by (simp add: hold_def)

lemma update_state_eq:
  "ear_threshold m = Some thr \<Longrightarrow>
     update_state now now' ear mar m =
       (let m2 = pruned now (blink_closure now ear thr m)
        in Inr (if microsleep now m2 then trigger_alarm now' (m2\<lparr>state := DANGER\<rparr>)
                else hold now (new_state (length (blink_timestamps m2)) mar) m2,
                length (blink_timestamps m2)))"
  by (simp add: update_state_def Let_def)

lemma update_state_threshold:
  "update_state now now' ear mar m = Inr r \<Longrightarrow> \<exists>thr. ear_threshold m = Some thr"
  by (auto simp: update_state_def split: option.splits)

lemma update_state_total:
  "ear_threshold m = Some thr \<Longrightarrow> \<exists>m' br. update_state now now' ear mar m = Inr (m', br)"
  by (simp add: update_state_eq Let_def)

lemma update_state_quiet:
  assumes "ear_threshold m = Some thr"
    and "\<not> microsleep now (pruned now (blink_closure now ear thr m))"
    and "update_state now now' ear mar m = Inr (m', br)"
  shows "m' = hold now (new_state br mar) (pruned now (blink_closure now ear thr m))"
  using assms by (auto simp: update_state_eq Let_def)

lemma update_state_frame:
  assumes "update_state now now' ear mar m = Inr (m', br)"
  shows "face_lost_start m' = face_lost_start m \<and> ear_threshold m' = ear_threshold m \<and>
         calibration_values m' = calibration_values m \<and>
         calibration_start m' = calibration_start m \<and>
         (state m \<noteq> CALIBRATING \<longrightarrow> state m' \<noteq> CALIBRATING)"
proof -
  obtain thr where thr: "ear_threshold m = Some thr"
    using assms update_state_threshold by blast
  define m2 where "m2 = pruned now (blink_closure now ear thr m)"
  have m': "m' = (if microsleep now m2 then trigger_alarm now' (m2\<lparr>state := DANGER\<rparr>)
                  else hold now (new_state (length (blink_timestamps m2)) mar) m2)"
    using assms by (auto simp: update_state_eq [OF thr] Let_def m2_def)
  have st: "state m2 = state m" by (simp add: m2_def pruned_fields blink_closure_fields)
  show ?thesis
  proof (cases "microsleep now m2")
    case True
    then show ?thesis using m'
      by (simp add: trigger_alarm_fields m2_def pruned_fields blink_closure_fields)
  next
    case False
    then have m'': "m' = hold now (new_state (length (blink_timestamps m2)) mar) m2"
      using m' by simp
    have "state m \<noteq> CALIBRATING \<longrightarrow> state m' \<noteq> CALIBRATING"
      using hold_state [of now "new_state (length (blink_timestamps m2)) mar" m2]
        new_state_cases [of "length (blink_timestamps m2)" mar] st m''
      by auto
    then show ?thesis using m''
      by (simp add: hold_fields m2_def pruned_fields blink_closure_fields)
  qed
qed

lemma update_state_tracking:
  assumes "ear_threshold m = Some thr" and "update_state now now' ear mar m = Inr (m', br)"
  shows "blink_timestamps m' = prune now (blink_timestamps (blink_closure now ear thr m))"
    and "eyes_closed_prev m' = eyes_closed_prev (blink_closure now ear thr m)"
    and "eye_close_start m' = eye_close_start (blink_closure now ear thr m)"
    and "br = length (blink_timestamps m')"
proof -
  define m2 where "m2 = pruned now (blink_closure now ear thr m)"
  have m': "m' = (if microsleep now m2 then trigger_alarm now' (m2\<lparr>state := DANGER\<rparr>)
                  else hold now (new_state (length (blink_timestamps m2)) mar) m2)"
    and br: "br = length (blink_timestamps m2)"
    using assms by (auto simp: update_state_eq Let_def m2_def)
  show "blink_timestamps m' = prune now (blink_timestamps (blink_closure now ear thr m))"
    using m' by (simp add: trigger_alarm_fields hold_fields m2_def pruned_fields)
  then show "br = length (blink_timestamps m')"
    using br by (simp add: m2_def pruned_fields)
  show "eyes_closed_prev m' = eyes_closed_prev (blink_closure now ear thr m)"
    using m' by (simp add: trigger_alarm_fields hold_fields m2_def pruned_fields)
  show "eye_close_start m' = eye_close_start (blink_closure now ear thr m)"
    using m' by (simp add: trigger_alarm_fields hold_fields m2_def pruned_fields)
qed

lemma calibrate_frame:
  "calibrate t t' ear m = Inr m' \<Longrightarrow>
     face_lost_start m' = face_lost_start m \<and> calibration_start m' = calibration_start m"
  by (auto simp: calibrate_def Let_def split: if_splits sum.splits)

lemma handle_face_lost_frame:
  "ear_threshold (handle_face_lost t t' m) = ear_threshold m \<and>
   calibration_values (handle_face_lost t t' m) = calibration_values m \<and>
   (state m \<noteq> CALIBRATING \<longrightarrow> state (handle_face_lost t t' m) \<noteq> CALIBRATING)"
  by (simp add: handle_face_lost_def trigger_alarm_fields split: option.splits)

lemma loop_body_update:
  assumes "ratios_of f = Some (ear, mar)" and "ear_threshold m = Some thr"
    and "state m \<noteq> CALIBRATING"
  shows "\<exists>m' br. update_state (instant f) (snd (snd f)) ear mar (m\<lparr>face_lost_start := None\<rparr>) = Inr (m', br)
           \<and> loop_body (fst f) (instant f) (snd (snd f)) m = Inr m'"
proof -
  obtain l r mo where d: "fst f = Face l r mo" and fr: "face_ratios l r mo = Inr (ear, mar)"
    using assms(1) by (auto simp: ratios_of_def split: detection.splits sum.splits)
  have "ear_threshold (m\<lparr>face_lost_start := None\<rparr>) = Some thr"
    using assms(2) by simp
  from update_state_total [OF this] obtain m' br where
    u: "update_state (instant f) (snd (snd f)) ear mar (m\<lparr>face_lost_start := None\<rparr>) = Inr (m', br)"
    by blast
  then show ?thesis using d fr assms(3) by (simp add: Let_def)
qed

lemma loop_body_calibrate:
  assumes "ratios_of f = Some (ear, mar)" and "state m = CALIBRATING"
    and "face_lost_start m = None"
  shows "loop_body (fst f) (instant f) (snd (snd f)) m
           = calibrate (instant f) (snd (snd f)) ear m"
proof -
  obtain l r mo where d: "fst f = Face l r mo" and fr: "face_ratios l r mo = Inr (ear, mar)"
    using assms(1) by (auto simp: ratios_of_def split: detection.splits sum.splits)
  have "m\<lparr>face_lost_start := None\<rparr> = m" using assms(3) by simp
  then show ?thesis using d fr assms(2) by (simp add: Let_def)
qed

lemma awake_run: "run [open_at 5] (init 0 0) = Inr awake"
  by (simp add: run_defs)

lemma blinking_run: "run [shut_at 6] awake = Inr blinking"
  by (simp add: run_defs)

lemma dozing_run: "run [open_at (- 1), shut_at 0] (init (- 6) (- 6)) = Inr dozing"
  by (simp add: run_defs)

lemma blinked_run:
  "run [shut_at 6, open_at 7, shut_at 30, open_at 31, shut_at 65, open_at 66] awake = Inr blinked"
  by (simp add: run_defs)

section \<open>Pruning the blink window\<close>

lemma prune_dropWhile: "prune now ts = dropWhile (\<lambda>t. now - t > BLINK_WINDOW) ts"
  by (induction ts) auto

lemma prune_sorted:
  "sorted ts \<Longrightarrow> prune now ts = filter (\<lambda>t. now - t \<le> BLINK_WINDOW) ts"
proof (induction ts)
  case Nil
  then show ?case by simp
next
  case (Cons a ts)
  show ?case
  proof (cases "now - a > BLINK_WINDOW")
    case True
    then show ?thesis using Cons by simp
  next
    case False
    have "\<forall>x\<in>set ts. now - x \<le> BLINK_WINDOW" using Cons.prems False by auto
    then have "filter (\<lambda>t. now - t \<le> BLINK_WINDOW) ts = ts" by simp
    then show ?thesis using False by simp
  qed
qed

lemma prune_snoc_now: "prune now (ts @ [now]) = prune now ts @ [now]"
  by (induction ts) (auto simp: BLINK_WINDOW_def)

lemma prune_length: "length (prune now ts) \<le> length ts"
  by (induction ts) auto

lemma prune_subset: "set (prune now ts) \<subseteq> set ts"
  by (induction ts) auto

lemma prune_keeps_sorted: "sorted ts \<Longrightarrow> sorted (prune now ts)"
  by (simp add: prune_dropWhile sorted_dropWhile)

lemma prune_idle: "\<forall>x\<in>set ts. now - x \<le> BLINK_WINDOW \<Longrightarrow> prune now ts = ts"
  by (cases ts) auto

lemma fold_prune_length: "length (fold prune ts xs) \<le> length xs"
proof (induction ts arbitrary: xs)
  case Nil
  then show ?case by simp
next
  case (Cons t ts)
  have "length (fold prune ts (prune t xs)) \<le> length (prune t xs)" by (rule Cons.IH)
  also have "\<dots> \<le> length xs" by (rule prune_length)
  finally show ?case by simp
qed

lemma fold_prune_idle:
  "\<forall>x\<in>set xs. \<forall>t\<in>set ts. t - x \<le> BLINK_WINDOW \<Longrightarrow> fold prune ts xs = xs"
proof (induction ts arbitrary: xs)
  case Nil
  then show ?case by simp
next
  case (Cons t ts)
  have "prune t xs = xs" using Cons.prems by (intro prune_idle) simp
  then show ?case using Cons by simp
qed

section \<open>Alarm cooldown\<close>

lemma trigger_alarm_dropped:
  "now - last_alarm_time m \<le> ALARM_COOLDOWN \<Longrightarrow> trigger_alarm now m = m"
  by (simp add: trigger_alarm_def)

lemma trigger_alarm_fired:
  "now - last_alarm_time m > ALARM_COOLDOWN \<Longrightarrow>
     trigger_alarm now m = m\<lparr>last_alarm_time := now, beeps := beeps m @ [now]\<rparr>"
  by (simp add: trigger_alarm_def)

lemma trigger_alarm_inv: "alarm_inv m \<Longrightarrow> alarm_inv (trigger_alarm now m)"
  by (auto simp: alarm_inv_def trigger_alarm_def sorted_wrt_append ALARM_COOLDOWN_def)

lemma alarm_inv_cong:
  "beeps m' = beeps m \<Longrightarrow> last_alarm_time m' = last_alarm_time m \<Longrightarrow>
     alarm_inv m \<Longrightarrow> alarm_inv m'"
  by (simp add: alarm_inv_def)

lemma handle_face_lost_inv: "alarm_inv m \<Longrightarrow> alarm_inv (handle_face_lost t t' m)"
  unfolding handle_face_lost_def
  by (auto split: option.splits intro!: trigger_alarm_inv elim: alarm_inv_cong [rotated 2])

lemma calibrate_alarm:
  "calibrate t t' ear m = Inr m' \<Longrightarrow>
     beeps m' = beeps m \<and> last_alarm_time m' = last_alarm_time m"
  by (auto simp: calibrate_def Let_def split: if_splits sum.splits)

lemma blink_closure_alarm:
  "beeps (blink_closure now ear thr m) = beeps m \<and>
   last_alarm_time (blink_closure now ear thr m) = last_alarm_time m"
  by (simp add: blink_closure_def)

lemma hold_alarm:
  "beeps (hold now ns m) = beeps m \<and> last_alarm_time (hold now ns m) = last_alarm_time m"
  by (simp add: hold_def)

lemma pruned_alarm:
  "beeps (pruned now m) = beeps m \<and> last_alarm_time (pruned now m) = last_alarm_time m"
  by (simp add: pruned_def)

lemma update_state_inv:
  assumes "alarm_inv m" and "update_state now now' ear mar m = Inr (m', br)"
  shows "alarm_inv m'"
proof -
  obtain thr where thr: "ear_threshold m = Some thr"
    using assms(2) update_state_threshold by blast
  define m2 where "m2 = pruned now (blink_closure now ear thr m)"
  have inv2: "alarm_inv m2"
    using assms(1) by (simp add: alarm_inv_def m2_def blink_closure_alarm pruned_alarm)
  have m': "m' = (if microsleep now m2 then trigger_alarm now' (m2\<lparr>state := DANGER\<rparr>)
                  else hold now (new_state (length (blink_timestamps m2)) mar) m2)"
    using assms(2) by (auto simp: update_state_eq [OF thr] Let_def m2_def)
  show ?thesis
  proof (cases "microsleep now m2")
    case True
    moreover have "alarm_inv (m2\<lparr>state := DANGER\<rparr>)"
      using inv2 by (simp add: alarm_inv_def)
    ultimately show ?thesis using m' by (simp add: trigger_alarm_inv)
  next
    case False
    then show ?thesis using inv2 m' by (simp add: alarm_inv_def hold_alarm)
  qed
qed

lemma loop_body_inv: "alarm_inv m \<Longrightarrow> loop_body d t t' m = Inr m' \<Longrightarrow> alarm_inv m'"
proof (cases d)
  case NoFace
  assume "alarm_inv m" "loop_body d t t' m = Inr m'"
  then show ?thesis using NoFace by (auto simp: handle_face_lost_inv)
next
  case (Face l r mo)
  assume a: "alarm_inv m" and b: "loop_body d t t' m = Inr m'"
  have a0: "alarm_inv (m\<lparr>face_lost_start := None\<rparr>)" using a by (simp add: alarm_inv_def)
  from b Face obtain ear mar where
    c: "(state m = CALIBRATING \<and> calibrate t t' ear (m\<lparr>face_lost_start := None\<rparr>) = Inr m') \<or>
        (\<exists>br. update_state t t' ear mar (m\<lparr>face_lost_start := None\<rparr>) = Inr (m', br))"
    by (auto simp: Let_def split: sum.splits if_splits prod.splits)
  then show ?thesis
  proof
    assume "state m = CALIBRATING \<and> calibrate t t' ear (m\<lparr>face_lost_start := None\<rparr>) = Inr m'"
    then show ?thesis using a0 calibrate_alarm alarm_inv_cong by blast
  next
    assume "\<exists>br. update_state t t' ear mar (m\<lparr>face_lost_start := None\<rparr>) = Inr (m', br)"
    then show ?thesis using a0 update_state_inv by blast
  qed
qed

lemma run_inv: "alarm_inv m \<Longrightarrow> run fs m = Inr m' \<Longrightarrow> alarm_inv m'"
proof (induction fs arbitrary: m)
  case Nil
  then show ?case by simp
next
  case (Cons f fs)
  obtain d t t' where f: "f = (d, t, t')" by (cases f) auto
  from Cons.prems(2) f obtain m1 where
    s: "loop_body d t t' m = Inr m1" and r: "run fs m1 = Inr m'"
    by (auto split: sum.splits)
  from loop_body_inv [OF Cons.prems(1) s] Cons.IH r show ?case by blast
qed

lemma init_inv: "alarm_inv (init t0 t1)"
  by (simp add: alarm_inv_def init_def)

text \<open>
  Claim C3, as amended. In every run of the main loop from a fresh monitor, any two
  firings of the alarm are more than the cooldown of 1.0 s apart. A request that comes
  when no more than 1.0 s has passed since the last-fired instant changes nothing: no
  firing, and the last-fired instant stays. Two requests within 1.0 s of each other
  produce at most one firing, and exactly one, at the first of them, when the first comes
  more than 1.0 s after the last-fired instant.
\<close>

theorem alarm_cooldown:
  "(run fs (init t0 t1) = Inr m \<longrightarrow>
      (\<forall>i j. i < j \<and> j < length (beeps m) \<longrightarrow> beeps m ! j - beeps m ! i > ALARM_COOLDOWN)) \<and>
   (now - last_alarm_time m0 \<le> ALARM_COOLDOWN \<longrightarrow> trigger_alarm now m0 = m0) \<and>
   (u2 - u1 \<le> ALARM_COOLDOWN \<longrightarrow>
      length (beeps (trigger_alarm u2 (trigger_alarm u1 m0))) \<le> length (beeps m0) + 1) \<and>
   (u1 - last_alarm_time m0 > ALARM_COOLDOWN \<and> u2 - u1 \<le> ALARM_COOLDOWN \<longrightarrow>
      beeps (trigger_alarm u2 (trigger_alarm u1 m0)) = beeps m0 @ [u1])"
proof (intro conjI impI)
  assume "run fs (init t0 t1) = Inr m"
  then have "alarm_inv m" using init_inv run_inv by blast
  then show "\<forall>i j. i < j \<and> j < length (beeps m) \<longrightarrow> beeps m ! j - beeps m ! i > ALARM_COOLDOWN"
    by (auto simp: alarm_inv_def sorted_wrt_iff_nth_less)
next
  assume "now - last_alarm_time m0 \<le> ALARM_COOLDOWN"
  then show "trigger_alarm now m0 = m0" by (rule trigger_alarm_dropped)
next
  assume "u2 - u1 \<le> ALARM_COOLDOWN"
  then show "length (beeps (trigger_alarm u2 (trigger_alarm u1 m0))) \<le> length (beeps m0) + 1"
    by (simp add: trigger_alarm_def)
next
  assume "u1 - last_alarm_time m0 > ALARM_COOLDOWN \<and> u2 - u1 \<le> ALARM_COOLDOWN"
  then show "beeps (trigger_alarm u2 (trigger_alarm u1 m0)) = beeps m0 @ [u1]"
    by (simp add: trigger_alarm_def)
qed

lemma four_absences_run:
  "run four_absences (init 0 0) = Inr ((init 0 0)\<lparr>face_lost_start := Some 0, state := DANGER,
     last_alarm_time := 7/2, beeps := [2, 7/2]\<rparr>)"
  by (simp add: four_absences_def method_defs)

theorem alarm_cooldown_witness:
  "run four_absences (init 0 0) = Inr ((init 0 0)\<lparr>face_lost_start := Some 0, state := DANGER,
     last_alarm_time := 7/2, beeps := [2, 7/2]\<rparr>) \<and>
   [2, 7/2 :: real] ! 1 - [2, 7/2] ! 0 > ALARM_COOLDOWN \<and>
   (5/2 :: real) - last_alarm_time ((init 0 0)\<lparr>last_alarm_time := 2\<rparr>) \<le> ALARM_COOLDOWN \<and>
   trigger_alarm (5/2) ((init 0 0)\<lparr>last_alarm_time := 2\<rparr>) = (init 0 0)\<lparr>last_alarm_time := 2\<rparr> \<and>
   (10.5 :: real) - 10 \<le> ALARM_COOLDOWN \<and>
   (10 :: real) - last_alarm_time (init 0 0) > ALARM_COOLDOWN \<and>
   beeps (trigger_alarm 10.5 (trigger_alarm 10 (init 0 0))) = [10]"
  using alarm_cooldown [of four_absences 0 0
      "(init 0 0)\<lparr>face_lost_start := Some 0, state := DANGER, last_alarm_time := 7/2, beeps := [2, 7/2]\<rparr>"
      "5/2" "(init 0 0)\<lparr>last_alarm_time := 2\<rparr>" "10.5" 10]
    alarm_cooldown [of "[]" 0 0 "init 0 0" "10.5" "init 0 0" "10.5" 10]
    four_absences_run
  by (simp add: init_def ALARM_COOLDOWN_def)

text \<open>
  Two requests within 1.0 s of each other do not always produce a firing: after a firing
  at 10 the requests at 10.2 and 10.5 are both dropped. In the main loop: the face is
  lost at 8, the alarm fires at 10, and the frames at 10.2 and 10.5, each of which asks
  for DANGER and the alarm again, fire nothing.
\<close>

theorem alarm_cooldown_counterexample:
  "(10.5 :: real) - 10.2 \<le> ALARM_COOLDOWN \<and>
   beeps (trigger_alarm 10 (init 0 0)) = [10] \<and>
   beeps (trigger_alarm 10.5 (trigger_alarm 10.2 (trigger_alarm 10 (init 0 0)))) = [10] \<and>
   run [(NoFace, 8, 8), (NoFace, 10, 10)] (init 0 0)
     = Inr ((init 0 0)\<lparr>face_lost_start := Some 8, state := DANGER,
              last_alarm_time := 10, beeps := [10]\<rparr>) \<and>
   run [(NoFace, 8, 8), (NoFace, 10, 10), (NoFace, 10.2, 10.2), (NoFace, 10.5, 10.5)] (init 0 0)
     = Inr ((init 0 0)\<lparr>face_lost_start := Some 8, state := DANGER,
              last_alarm_time := 10, beeps := [10]\<rparr>)"
  by (simp add: trigger_alarm_def handle_face_lost_def init_def const_defs)

text \<open>
  The last-fired instant of a fresh monitor is 0.0, so requests made at clock readings up
  to 1.0 are dropped as well.
\<close>

lemma fresh_monitor_drops_early_requests:
  "now \<le> 1 \<Longrightarrow> trigger_alarm now (init t0 t1) = init t0 t1"
  by (simp add: trigger_alarm_def init_def ALARM_COOLDOWN_def)

section \<open>Face loss\<close>

lemma loop_body_Face_clears:
  assumes "loop_body (Face l r mo) t t' m = Inr m'"
  shows "face_lost_start m' = None"
proof -
  from assms obtain ear mar where
    c: "calibrate t t' ear (m\<lparr>face_lost_start := None\<rparr>) = Inr m' \<or>
        (\<exists>br. update_state t t' ear mar (m\<lparr>face_lost_start := None\<rparr>) = Inr (m', br))"
    by (auto simp: Let_def split: sum.splits if_splits prod.splits)
  then show ?thesis
    using calibrate_frame update_state_frame by fastforce
qed

text \<open>
  Claim C6. On a frame without a face, a loss episode that is not active starts at the
  frame's instant. Once the episode has lasted 2.0 s, the boundary included, the state
  becomes DANGER and the alarm is requested, whatever the hold timer says; before that
  the frame changes nothing. A frame with a face clears the episode, so that the next
  frame without a face starts a new one at its own instant, and what the frame with a
  face does is the same whatever the start of the episode was.
\<close>

theorem face_loss:
  "(face_lost_start m = None \<longrightarrow>
      loop_body NoFace t t' m = Inr (m\<lparr>face_lost_start := Some t\<rparr>)) \<and>
   (face_lost_start m = Some s \<and> t - s \<ge> FACE_LOST_TIME \<longrightarrow>
      loop_body NoFace t t' m = Inr (trigger_alarm t' (m\<lparr>state := DANGER\<rparr>)) \<and>
      state (trigger_alarm t' (m\<lparr>state := DANGER\<rparr>)) = DANGER) \<and>
   (face_lost_start m = Some s \<longrightarrow>
      loop_body NoFace (s + 2.0) t' m = Inr (trigger_alarm t' (m\<lparr>state := DANGER\<rparr>))) \<and>
   (face_lost_start m = Some s \<and> t - s < FACE_LOST_TIME \<longrightarrow> loop_body NoFace t t' m = Inr m) \<and>
   (loop_body (Face l r mo) t t' m = Inr m' \<longrightarrow>
      face_lost_start m' = None \<and>
      loop_body NoFace u u' m' = Inr (m'\<lparr>face_lost_start := Some u\<rparr>)) \<and>
   loop_body (Face l r mo) t t' (m\<lparr>face_lost_start := x\<rparr>) = loop_body (Face l r mo) t t' m"
proof (intro conjI impI)
  show "loop_body (Face l r mo) t t' (m\<lparr>face_lost_start := x\<rparr>) = loop_body (Face l r mo) t t' m"
    by (simp add: Let_def)
next
  assume "loop_body (Face l r mo) t t' m = Inr m'"
  then show "face_lost_start m' = None" by (rule loop_body_Face_clears)
  then show "loop_body NoFace u u' m' = Inr (m'\<lparr>face_lost_start := Some u\<rparr>)"
    by (simp add: handle_face_lost_def)
qed (simp_all add: handle_face_lost_def trigger_alarm_fields FACE_LOST_TIME_def)

lemma lost_at_one_run: "run [(NoFace, 1, 1)] (init 0 0) = Inr lost_at_one"
  by (simp add: lost_at_one_def method_defs)

theorem face_loss_witness:
  "face_lost_start (init 0 0) = None \<and>
   loop_body NoFace 1 1 (init 0 0) = Inr lost_at_one \<and>
   face_lost_start lost_at_one = Some 1 \<and> (3 :: real) - 1 \<ge> FACE_LOST_TIME \<and>
   loop_body NoFace 3 3 lost_at_one
     = Inr (lost_at_one\<lparr>state := DANGER, last_alarm_time := 3, beeps := [3]\<rparr>) \<and>
   (5/2 :: real) - 1 < FACE_LOST_TIME \<and>
   loop_body NoFace (5/2) (5/2) lost_at_one = Inr lost_at_one \<and>
   loop_body (Face open_contour open_contour shut_contour) 2 2 lost_at_one
     = Inr ((init 0 0)\<lparr>calibration_values := [1]\<rparr>) \<and>
   loop_body NoFace 9 9 ((init 0 0)\<lparr>calibration_values := [1]\<rparr>)
     = Inr ((init 0 0)\<lparr>calibration_values := [1], face_lost_start := Some 9\<rparr>) \<and>
   loop_body (Face open_contour open_contour shut_contour) 2 2
       (lost_at_one\<lparr>face_lost_start := Some (- 7)\<rparr>)
     = loop_body (Face open_contour open_contour shut_contour) 2 2 lost_at_one"
  using face_loss [of "init 0 0" 1 1 0 open_contour open_contour shut_contour
      "(init 0 0)\<lparr>calibration_values := [1]\<rparr>" 9 9]
    face_loss [of lost_at_one 3 3 1 open_contour open_contour shut_contour
      "(init 0 0)\<lparr>calibration_values := [1]\<rparr>" 9 9]
    face_loss [of lost_at_one "5/2" "5/2" 1 open_contour open_contour shut_contour
      "(init 0 0)\<lparr>calibration_values := [1]\<rparr>" 9 9]
    face_loss [of lost_at_one 2 2 1 open_contour open_contour shut_contour
      "(init 0 0)\<lparr>calibration_values := [1]\<rparr>" 9 9 "Some (- 7)"]
  by (simp add: lost_at_one_def method_defs)

section \<open>Calibration\<close>

lemma samples_Nil: "samples [] = []"
  by (simp add: samples_def map_filter_simps)

lemma samples_Cons:
  "ratios_of f = Some (ear, mar) \<Longrightarrow> samples (f # fs) = ear # samples fs"
  by (simp add: samples_def map_filter_simps)

lemma samples_append: "samples (fs @ gs) = samples fs @ samples gs"
  by (simp add: samples_def map_filter_def)

text \<open>Frames with a face, all before the calibration time is up, only collect samples.\<close>

lemma feed_early:
  assumes "\<forall>f\<in>set fs. ratios_of f \<noteq> None \<and> instant f - calibration_start m < CALIBRATION_TIME"
    and "state m = CALIBRATING" and "face_lost_start m = None"
  shows "run fs m = Inr (m\<lparr>calibration_values := calibration_values m @ samples fs\<rparr>)"
  using assms
proof (induction fs arbitrary: m)
  case Nil
  then show ?case by (simp add: samples_Nil)
next
  case (Cons f fs)
  obtain ear mar where r: "ratios_of f = Some (ear, mar)"
    using Cons.prems(1) by auto
  have e: "instant f - calibration_start m < CALIBRATION_TIME" using Cons.prems(1) by simp
  define m1 where "m1 = m\<lparr>calibration_values := calibration_values m @ [ear]\<rparr>"
  have l: "loop_body (fst f) (instant f) (snd (snd f)) m = Inr m1"
    using loop_body_calibrate [OF r Cons.prems(2,3)] calibrate_early [OF e] by (simp add: m1_def)
  have "\<forall>g\<in>set fs. ratios_of g \<noteq> None \<and> instant g - calibration_start m1 < CALIBRATION_TIME"
    using Cons.prems(1) by (simp add: m1_def)
  moreover have "state m1 = CALIBRATING" "face_lost_start m1 = None"
    using Cons.prems(2,3) by (simp_all add: m1_def)
  ultimately have "run fs m1 = Inr (m1\<lparr>calibration_values := calibration_values m1 @ samples fs\<rparr>)"
    by (rule Cons.IH)
  then show ?case using l by (simp add: run_Cons m1_def samples_Cons [OF r])
qed

lemma feed_complete:
  assumes "\<forall>f\<in>set fs. ratios_of f \<noteq> None \<and> instant f - t1 < CALIBRATION_TIME"
    and "ratios_of f \<noteq> None" and "instant f - t1 \<ge> CALIBRATION_TIME"
  shows "run (fs @ [f]) (init t0 t1) =
           Inr ((init t0 t1)\<lparr>calibration_values := samples (fs @ [f]),
                  ear_threshold := Some (0.7 * (sum_list (samples (fs @ [f]))
                                        / real (length (samples (fs @ [f]))))),
                  state := NORMAL, state_change_time := snd (snd f)\<rparr>)"
proof -
  define m1 where "m1 = (init t0 t1)\<lparr>calibration_values := samples fs\<rparr>"
  have r1: "run fs (init t0 t1) = Inr m1"
    using feed_early [of fs "init t0 t1"] assms(1) by (simp add: init_def m1_def)
  obtain ear mar where r: "ratios_of f = Some (ear, mar)" using assms(2) by auto
  have sf: "samples (fs @ [f]) = samples fs @ [ear]"
    by (simp add: samples_append samples_Cons [OF r] samples_Nil)
  have "state m1 = CALIBRATING" "face_lost_start m1 = None"
    "instant f - calibration_start m1 \<ge> CALIBRATION_TIME"
    using assms(3) by (simp_all add: m1_def init_def)
  then have "loop_body (fst f) (instant f) (snd (snd f)) m1 =
      Inr (m1\<lparr>calibration_values := calibration_values m1 @ [ear],
             ear_threshold := Some (0.7 * (sum_list (calibration_values m1 @ [ear])
                                   / real (length (calibration_values m1 @ [ear])))),
             state := NORMAL, state_change_time := snd (snd f)\<rparr>)"
    using loop_body_calibrate [OF r] calibrate_complete by simp
  then show ?thesis
    using r1 by (simp add: run_append run_Cons sf m1_def)
qed

text \<open>Once the threshold is set, no frame changes it or the samples behind it.\<close>

lemma threshold_kept:
  assumes "ear_threshold m = Some thr" and "state m \<noteq> CALIBRATING"
    and "loop_body d t t' m = Inr m'"
  shows "ear_threshold m' = Some thr \<and> calibration_values m' = calibration_values m \<and>
         state m' \<noteq> CALIBRATING"
proof (cases d)
  case NoFace
  then show ?thesis using assms handle_face_lost_frame [of t t' m] by auto
next
  case (Face l r mo)
  from assms(2,3) Face obtain ear mar br where
    u: "update_state t t' ear mar (m\<lparr>face_lost_start := None\<rparr>) = Inr (m', br)"
    by (auto simp: Let_def split: sum.splits prod.splits)
  show ?thesis using update_state_frame [OF u] assms(1,2) by simp
qed

lemma cal_inv_step:
  assumes "cal_inv m" and "loop_body d t t' m = Inr m'"
  shows "cal_inv m'"
proof (cases "ear_threshold m")
  case (Some thr)
  then have "state m \<noteq> CALIBRATING" using assms(1) by (simp add: cal_inv_def)
  from threshold_kept [OF Some this assms(2)] assms(1) Some show ?thesis
    by (simp add: cal_inv_def)
next
  case None
  show ?thesis
  proof (cases d)
    case NoFace
    then show ?thesis using assms(2) None handle_face_lost_frame [of t t' m]
      by (auto simp: cal_inv_def)
  next
    case (Face l r mo)
    from assms(2) Face None obtain ear where
      c: "calibrate t t' ear (m\<lparr>face_lost_start := None\<rparr>) = Inr m'"
      by (auto simp: Let_def update_state_def split: sum.splits prod.splits if_splits)
    then show ?thesis using None
      by (auto simp: calibrate_def truediv_def Let_def cal_inv_def split: if_splits)
  qed
qed

lemma cal_inv_run: "cal_inv m \<Longrightarrow> run fs m = Inr m' \<Longrightarrow> cal_inv m'"
proof (induction fs arbitrary: m)
  case Nil
  then show ?case by simp
next
  case (Cons f fs)
  from Cons.prems(2) obtain m1 where
    l: "loop_body (fst f) (instant f) (snd (snd f)) m = Inr m1" and r: "run fs m1 = Inr m'"
    by (auto simp: run_Cons split: sum.splits)
  from cal_inv_step [OF Cons.prems(1) l] Cons.IH r show ?case by blast
qed

lemma threshold_kept_run:
  "ear_threshold m = Some thr \<Longrightarrow> state m \<noteq> CALIBRATING \<Longrightarrow> run fs m = Inr m' \<Longrightarrow>
     ear_threshold m' = Some thr \<and> calibration_values m' = calibration_values m"
proof (induction fs arbitrary: m)
  case Nil
  then show ?case by simp
next
  case (Cons f fs)
  from Cons.prems(3) obtain m1 where
    l: "loop_body (fst f) (instant f) (snd (snd f)) m = Inr m1" and r: "run fs m1 = Inr m'"
    by (auto simp: run_Cons split: sum.splits)
  from threshold_kept [OF Cons.prems(1,2) l] Cons.IH [OF _ _ r] show ?case by simp
qed

text \<open>
  Claim C4. A call of calibrate when at least 5 s have passed since the calibration start
  appends its sample, sets the threshold to 0.7 times the mean of all collected samples,
  moves to NORMAL and resets the hold timer; an earlier call only appends its sample.
  Frames with a face fed to a fresh monitor for less than 5 s leave the threshold unset
  and the state CALIBRATING, and the first such frame at 5 s or later sets the threshold
  to 0.7 times the mean of all samples fed. In every run from a fresh monitor a threshold
  that is set is 0.7 times the mean of the samples collected, the monitor has left
  CALIBRATING, and no later frame changes the threshold or the samples.
\<close>

theorem calibration_completion:
  "(t - calibration_start m \<ge> CALIBRATION_TIME \<longrightarrow>
      calibrate t t' ear m =
        Inr (m\<lparr>calibration_values := calibration_values m @ [ear],
               ear_threshold := Some (0.7 * (sum_list (calibration_values m @ [ear])
                                     / real (length (calibration_values m @ [ear])))),
               state := NORMAL, state_change_time := t'\<rparr>)) \<and>
   (t - calibration_start m < CALIBRATION_TIME \<longrightarrow>
      calibrate t t' ear m = Inr (m\<lparr>calibration_values := calibration_values m @ [ear]\<rparr>)) \<and>
   ((\<forall>f\<in>set fs. ratios_of f \<noteq> None \<and> instant f - t1 < CALIBRATION_TIME) \<longrightarrow>
      run fs (init t0 t1) = Inr ((init t0 t1)\<lparr>calibration_values := samples fs\<rparr>) \<and>
      (ratios_of f \<noteq> None \<and> instant f - t1 \<ge> CALIBRATION_TIME \<longrightarrow>
         run (fs @ [f]) (init t0 t1) =
           Inr ((init t0 t1)\<lparr>calibration_values := samples (fs @ [f]),
                  ear_threshold := Some (0.7 * (sum_list (samples (fs @ [f]))
                                        / real (length (samples (fs @ [f]))))),
                  state := NORMAL, state_change_time := snd (snd f)\<rparr>))) \<and>
   (run gs (init t0 t1) = Inr m1 \<and> ear_threshold m1 = Some thr \<longrightarrow>
      state m1 \<noteq> CALIBRATING \<and> calibration_values m1 \<noteq> [] \<and>
      thr = 0.7 * (sum_list (calibration_values m1) / real (length (calibration_values m1))) \<and>
      (\<forall>hs m2. run hs m1 = Inr m2 \<longrightarrow>
         ear_threshold m2 = Some thr \<and> calibration_values m2 = calibration_values m1))"
proof (intro conjI impI)
  assume "t - calibration_start m \<ge> CALIBRATION_TIME"
  then show "calibrate t t' ear m =
        Inr (m\<lparr>calibration_values := calibration_values m @ [ear],
               ear_threshold := Some (0.7 * (sum_list (calibration_values m @ [ear])
                                     / real (length (calibration_values m @ [ear])))),
               state := NORMAL, state_change_time := t'\<rparr>)"
    by (rule calibrate_complete)
next
  assume "t - calibration_start m < CALIBRATION_TIME"
  then show "calibrate t t' ear m = Inr (m\<lparr>calibration_values := calibration_values m @ [ear]\<rparr>)"
    by (rule calibrate_early)
next
  assume a: "\<forall>f\<in>set fs. ratios_of f \<noteq> None \<and> instant f - t1 < CALIBRATION_TIME"
  show "run fs (init t0 t1) = Inr ((init t0 t1)\<lparr>calibration_values := samples fs\<rparr>)"
    using feed_early [of fs "init t0 t1"] a by (simp add: init_def)
  assume "ratios_of f \<noteq> None \<and> instant f - t1 \<ge> CALIBRATION_TIME"
  then show "run (fs @ [f]) (init t0 t1) =
           Inr ((init t0 t1)\<lparr>calibration_values := samples (fs @ [f]),
                  ear_threshold := Some (0.7 * (sum_list (samples (fs @ [f]))
                                        / real (length (samples (fs @ [f]))))),
                  state := NORMAL, state_change_time := snd (snd f)\<rparr>)"
    using feed_complete [OF a] by simp
next
  assume a: "run gs (init t0 t1) = Inr m1 \<and> ear_threshold m1 = Some thr"
  have "cal_inv (init t0 t1)" by (simp add: cal_inv_def init_def)
  then have c: "cal_inv m1" using cal_inv_run a by blast
  then show n: "state m1 \<noteq> CALIBRATING" and "calibration_values m1 \<noteq> []"
    and "thr = 0.7 * (sum_list (calibration_values m1) / real (length (calibration_values m1)))"
    using a by (simp_all add: cal_inv_def)
  show "\<forall>hs m2. run hs m1 = Inr m2 \<longrightarrow>
         ear_threshold m2 = Some thr \<and> calibration_values m2 = calibration_values m1"
    using threshold_kept_run [of m1 thr] a n by blast
qed

theorem calibration_completion_witness:
  "(5 :: real) - calibration_start (init 0 0) \<ge> CALIBRATION_TIME \<and>
   calibrate 5 5 1 (init 0 0) = Inr awake \<and>
   (2 :: real) - calibration_start (init 0 0) < CALIBRATION_TIME \<and>
   calibrate 2 2 1 (init 0 0) = Inr ((init 0 0)\<lparr>calibration_values := [1]\<rparr>) \<and>
   ratios_of (open_at 1) \<noteq> None \<and> instant (open_at 1) - 0 < CALIBRATION_TIME \<and>
   ratios_of (shut_at 2) \<noteq> None \<and> instant (shut_at 2) - 0 < CALIBRATION_TIME \<and>
   run [open_at 1, shut_at 2] (init 0 0) = Inr ((init 0 0)\<lparr>calibration_values := [1, 0]\<rparr>) \<and>
   ratios_of (open_at 5) \<noteq> None \<and> instant (open_at 5) - 0 \<ge> CALIBRATION_TIME \<and>
   run ([open_at 1, shut_at 2] @ [open_at 5]) (init 0 0) =
     Inr ((init 0 0)\<lparr>calibration_values := [1, 0, 1], ear_threshold := Some (7/15),
            state := NORMAL, state_change_time := 5\<rparr>) \<and>
   run [open_at 5] (init 0 0) = Inr awake \<and> ear_threshold awake = Some (7/10) \<and>
   state awake \<noteq> CALIBRATING \<and> calibration_values awake = [1] \<and>
   run [shut_at 6] awake = Inr blinking \<and> ear_threshold blinking = Some (7/10)"
  using calibration_completion [of 5 "init 0 0" 5 1 "[open_at 1, shut_at 2]" 0 0 "open_at 5"
      "[open_at 5]" awake "7/10"]
    calibration_completion [of 2 "init 0 0" 2 1 "[open_at 1, shut_at 2]" 0 0 "open_at 5"
      "[open_at 5]" awake "7/10"]
    awake_run blinking_run
  by (simp add: frame_simps samples_def map_filter_simps)
    (simp add: run_defs)

section \<open>Blink counting and the blink window\<close>

text \<open>A frame with the eyes shut, while the latch is already set.\<close>

lemma shut_frame_continues:
  assumes "eyes_shut thr f" and "ear_threshold m = Some thr" and "state m \<noteq> CALIBRATING"
    and "eyes_closed_prev m"
  shows "\<exists>m'. loop_body (fst f) (instant f) (snd (snd f)) m = Inr m' \<and>
           blink_timestamps m' = prune (instant f) (blink_timestamps m) \<and>
           eyes_closed_prev m' \<and> eye_close_start m' = eye_close_start m \<and>
           ear_threshold m' = Some thr \<and> state m' \<noteq> CALIBRATING"
proof -
  obtain ear mar where r: "ratios_of f = Some (ear, mar)" and lt: "ear < thr"
    using assms(1) eyes_shut_ratios by blast
  define m0 where "m0 = m\<lparr>face_lost_start := None\<rparr>"
  obtain m' br where u: "update_state (instant f) (snd (snd f)) ear mar m0 = Inr (m', br)"
    and l: "loop_body (fst f) (instant f) (snd (snd f)) m = Inr m'"
    using loop_body_update [OF r assms(2,3)] m0_def by blast
  have thr0: "ear_threshold m0 = Some thr" using assms(2) by (simp add: m0_def)
  have bc: "blink_closure (instant f) ear thr m0 = m0"
    using lt assms(4) by (simp add: blink_closure_def m0_def)
  have "blink_timestamps m' = prune (instant f) (blink_timestamps m)"
    and "eyes_closed_prev m'" and "eye_close_start m' = eye_close_start m"
    using update_state_tracking [OF thr0 u] bc assms(4) by (simp_all add: m0_def)
  moreover have "ear_threshold m' = Some thr \<and> state m' \<noteq> CALIBRATING"
    using update_state_frame [OF u] thr0 assms(3) by (simp add: m0_def)
  ultimately show ?thesis using l by blast
qed

text \<open>A frame with the eyes shut, while the latch is clear: the onset.\<close>

lemma shut_frame_onset:
  assumes "eyes_shut thr f" and "ear_threshold m = Some thr" and "state m \<noteq> CALIBRATING"
    and "\<not> eyes_closed_prev m"
  shows "\<exists>m'. loop_body (fst f) (instant f) (snd (snd f)) m = Inr m' \<and>
           blink_timestamps m' = prune (instant f) (blink_timestamps m @ [instant f]) \<and>
           eyes_closed_prev m' \<and> eye_close_start m' = Some (instant f) \<and>
           ear_threshold m' = Some thr \<and> state m' \<noteq> CALIBRATING"
proof -
  obtain ear mar where r: "ratios_of f = Some (ear, mar)" and lt: "ear < thr"
    using assms(1) eyes_shut_ratios by blast
  define m0 where "m0 = m\<lparr>face_lost_start := None\<rparr>"
  obtain m' br where u: "update_state (instant f) (snd (snd f)) ear mar m0 = Inr (m', br)"
    and l: "loop_body (fst f) (instant f) (snd (snd f)) m = Inr m'"
    using loop_body_update [OF r assms(2,3)] m0_def by blast
  have thr0: "ear_threshold m0 = Some thr" using assms(2) by (simp add: m0_def)
  have bc: "blink_closure (instant f) ear thr m0 =
      m0\<lparr>blink_timestamps := blink_timestamps m0 @ [instant f],
         eyes_closed_prev := True, eye_close_start := Some (instant f)\<rparr>"
    using lt assms(4) by (simp add: blink_closure_def m0_def)
  have "blink_timestamps m' = prune (instant f) (blink_timestamps m @ [instant f])"
    and "eyes_closed_prev m'" and "eye_close_start m' = Some (instant f)"
    using update_state_tracking [OF thr0 u] bc by (simp_all add: m0_def)
  moreover have "ear_threshold m' = Some thr \<and> state m' \<noteq> CALIBRATING"
    using update_state_frame [OF u] thr0 assms(3) by (simp add: m0_def)
  ultimately show ?thesis using l by blast
qed

lemma shut_run_continues:
  assumes "\<forall>f\<in>set fs. eyes_shut thr f" and "ear_threshold m = Some thr"
    and "state m \<noteq> CALIBRATING" and "eyes_closed_prev m"
  shows "\<exists>m'. run fs m = Inr m' \<and>
           blink_timestamps m' = fold prune (map instant fs) (blink_timestamps m) \<and>
           eyes_closed_prev m' \<and> eye_close_start m' = eye_close_start m \<and>
           ear_threshold m' = Some thr \<and> state m' \<noteq> CALIBRATING"
  using assms
proof (induction fs arbitrary: m)
  case Nil
  then show ?case by simp
next
  case (Cons f fs)
  have "eyes_shut thr f" using Cons.prems(1) by simp
  from shut_frame_continues [OF this Cons.prems(2,3,4)] obtain m1 where
    l: "loop_body (fst f) (instant f) (snd (snd f)) m = Inr m1"
    and b: "blink_timestamps m1 = prune (instant f) (blink_timestamps m)"
    and c: "eyes_closed_prev m1" and s: "eye_close_start m1 = eye_close_start m"
    and t: "ear_threshold m1 = Some thr" and n: "state m1 \<noteq> CALIBRATING"
    by blast
  have "\<forall>g\<in>set fs. eyes_shut thr g" using Cons.prems(1) by simp
  from Cons.IH [OF this t n c] obtain m' where
    "run fs m1 = Inr m'"
    "blink_timestamps m' = fold prune (map instant fs) (blink_timestamps m1)"
    "eyes_closed_prev m'" "eye_close_start m' = eye_close_start m1"
    "ear_threshold m' = Some thr" "state m' \<noteq> CALIBRATING"
    by blast
  then show ?case using l b s by (simp add: run_Cons)
qed

lemma shut_run_onset:
  assumes "eyes_shut thr f" and "\<forall>g\<in>set fs. eyes_shut thr g" and "ear_threshold m = Some thr"
    and "state m \<noteq> CALIBRATING" and "\<not> eyes_closed_prev m"
  shows "\<exists>m'. run (f # fs) m = Inr m' \<and>
           blink_timestamps m' =
             fold prune (map instant (f # fs)) (blink_timestamps m @ [instant f]) \<and>
           eyes_closed_prev m' \<and> eye_close_start m' = Some (instant f)"
proof -
  from shut_frame_onset [OF assms(1,3,4,5)] obtain m1 where
    l: "loop_body (fst f) (instant f) (snd (snd f)) m = Inr m1"
    and b: "blink_timestamps m1 = prune (instant f) (blink_timestamps m @ [instant f])"
    and c: "eyes_closed_prev m1" and s: "eye_close_start m1 = Some (instant f)"
    and t: "ear_threshold m1 = Some thr" and n: "state m1 \<noteq> CALIBRATING"
    by blast
  from shut_run_continues [OF assms(2) t n c] obtain m' where
    "run fs m1 = Inr m'"
    "blink_timestamps m' = fold prune (map instant fs) (blink_timestamps m1)"
    "eyes_closed_prev m'" "eye_close_start m' = eye_close_start m1"
    by blast
  then show ?thesis using l b s by (simp add: run_Cons)
qed

text \<open>
  Claim C7. On a frame with the eye ratio below the threshold and the latch clear,
  update_state appends the frame's instant to the blink timestamps, sets the latch and
  records the instant as the start of the closure episode; with the latch set it appends
  nothing and keeps the start; on a frame with the eye ratio at or above the threshold
  it clears the latch and the start. Apart from that the timestamps only lose what the
  window prunes. So a run of frames with the eyes shut, begun with the latch clear, ends
  with the old timestamps and the onset instant, pruned at each frame's instant: one
  timestamp appended however many frames the closure lasts, and the sequence longer by
  exactly one when nothing leaves the window.
\<close>

theorem blink_leading_edge:
  "(ear_threshold m = Some thr \<and> update_state now now' ear mar m = Inr (m', br) \<longrightarrow>
      (ear < thr \<and> \<not> eyes_closed_prev m \<longrightarrow>
         blink_timestamps m' = prune now (blink_timestamps m) @ [now] \<and>
         eyes_closed_prev m' \<and> eye_close_start m' = Some now) \<and>
      (ear < thr \<and> eyes_closed_prev m \<longrightarrow>
         blink_timestamps m' = prune now (blink_timestamps m) \<and>
         eyes_closed_prev m' \<and> eye_close_start m' = eye_close_start m) \<and>
      (ear \<ge> thr \<longrightarrow>
         blink_timestamps m' = prune now (blink_timestamps m) \<and>
         \<not> eyes_closed_prev m' \<and> eye_close_start m' = None)) \<and>
   (ear_threshold m = Some thr \<and> state m \<noteq> CALIBRATING \<and> \<not> eyes_closed_prev m \<and>
    eyes_shut thr f \<and> (\<forall>g\<in>set fs. eyes_shut thr g) \<longrightarrow>
      (\<exists>m'. run (f # fs) m = Inr m' \<and>
         blink_timestamps m' =
           fold prune (map instant (f # fs)) (blink_timestamps m @ [instant f]) \<and>
         eyes_closed_prev m' \<and> eye_close_start m' = Some (instant f) \<and>
         length (blink_timestamps m') \<le> length (blink_timestamps m) + 1 \<and>
         ((\<forall>x\<in>set (blink_timestamps m @ [instant f]).
             \<forall>t\<in>set (map instant (f # fs)). t - x \<le> BLINK_WINDOW) \<longrightarrow>
            blink_timestamps m' = blink_timestamps m @ [instant f])))"
proof (intro conjI impI)
  assume a: "ear_threshold m = Some thr \<and> update_state now now' ear mar m = Inr (m', br)"
  note tr = update_state_tracking [OF conjunct1 [OF a] conjunct2 [OF a]]
  {
    assume "ear < thr \<and> \<not> eyes_closed_prev m"
    then show "blink_timestamps m' = prune now (blink_timestamps m) @ [now]"
      and "eyes_closed_prev m'" and "eye_close_start m' = Some now"
      using tr by (simp_all add: blink_closure_def prune_snoc_now)
  }
  {
    assume "ear < thr \<and> eyes_closed_prev m"
    then show "blink_timestamps m' = prune now (blink_timestamps m)"
      and "eyes_closed_prev m'" and "eye_close_start m' = eye_close_start m"
      using tr by (simp_all add: blink_closure_def)
  }
  {
    assume "ear \<ge> thr"
    then show "blink_timestamps m' = prune now (blink_timestamps m)"
      and "\<not> eyes_closed_prev m'" and "eye_close_start m' = None"
      using tr by (simp_all add: blink_closure_def)
  }
next
  assume a: "ear_threshold m = Some thr \<and> state m \<noteq> CALIBRATING \<and> \<not> eyes_closed_prev m \<and>
    eyes_shut thr f \<and> (\<forall>g\<in>set fs. eyes_shut thr g)"
  then obtain m' where r: "run (f # fs) m = Inr m'"
    and b: "blink_timestamps m' =
      fold prune (map instant (f # fs)) (blink_timestamps m @ [instant f])"
    and c: "eyes_closed_prev m'" and s: "eye_close_start m' = Some (instant f)"
    using shut_run_onset [of thr f fs m] by blast
  have len: "length (blink_timestamps m') \<le> length (blink_timestamps m) + 1"
    using fold_prune_length [of "map instant (f # fs)" "blink_timestamps m @ [instant f]"] b
    by simp
  have idle: "(\<forall>x\<in>set (blink_timestamps m @ [instant f]).
             \<forall>t\<in>set (map instant (f # fs)). t - x \<le> BLINK_WINDOW) \<longrightarrow>
            blink_timestamps m' = blink_timestamps m @ [instant f]"
    using fold_prune_idle [of "blink_timestamps m @ [instant f]" "map instant (f # fs)"] b
    by auto
  show "\<exists>m'. run (f # fs) m = Inr m' \<and>
         blink_timestamps m' =
           fold prune (map instant (f # fs)) (blink_timestamps m @ [instant f]) \<and>
         eyes_closed_prev m' \<and> eye_close_start m' = Some (instant f) \<and>
         length (blink_timestamps m') \<le> length (blink_timestamps m) + 1 \<and>
         ((\<forall>x\<in>set (blink_timestamps m @ [instant f]).
             \<forall>t\<in>set (map instant (f # fs)). t - x \<le> BLINK_WINDOW) \<longrightarrow>
            blink_timestamps m' = blink_timestamps m @ [instant f])"
    using r b c s len idle by blast
qed

theorem blink_leading_edge_witness:
  "ear_threshold awake = Some (7/10) \<and> (0 :: real) < 7/10 \<and> \<not> eyes_closed_prev awake \<and>
   update_state 6 6 0 0 awake = Inr (blinking, 1) \<and>
   blink_timestamps blinking = prune 6 (blink_timestamps awake) @ [6] \<and>
   eyes_closed_prev blinking \<and> eye_close_start blinking = Some 6 \<and>
   ear_threshold blinking = Some (7/10) \<and>
   update_state 7 7 0 0 blinking = Inr (blinking\<lparr>state_change_time := 7\<rparr>, 1) \<and>
   blink_timestamps (blinking\<lparr>state_change_time := 7\<rparr>) = prune 7 (blink_timestamps blinking) \<and>
   (1 :: real) \<ge> 7/10 \<and>
   update_state 7 7 1 0 blinking
     = Inr (blinking\<lparr>eyes_closed_prev := False, eye_close_start := None,
              state_change_time := 7\<rparr>, 1) \<and>
   eye_close_start (blinking\<lparr>eyes_closed_prev := False, eye_close_start := None,
              state_change_time := 7\<rparr>) = None \<and>
   state awake \<noteq> CALIBRATING \<and>
   eyes_shut (7/10) (shut_at 6) \<and> eyes_shut (7/10) (shut_at (13/2)) \<and>
   eyes_shut (7/10) (shut_at 7) \<and>
   run (shut_at 6 # [shut_at (13/2), shut_at 7]) awake
     = Inr (blinking\<lparr>state_change_time := 7\<rparr>) \<and>
   length (blink_timestamps (blinking\<lparr>state_change_time := 7\<rparr>))
     \<le> length (blink_timestamps awake) + 1 \<and>
   blink_timestamps (blinking\<lparr>state_change_time := 7\<rparr>) = blink_timestamps awake @ [6]"
proof -
  have t: "ear_threshold awake = Some (7/10)" "\<not> eyes_closed_prev awake"
    "state awake \<noteq> CALIBRATING" "ear_threshold blinking = Some (7/10)"
    "eyes_closed_prev blinking"
    by (simp_all add: awake_def blinking_def init_def)
  have u1: "update_state 6 6 0 0 awake = Inr (blinking, 1)"
    by (simp add: run_defs)
  have u2: "update_state 7 7 0 0 blinking = Inr (blinking\<lparr>state_change_time := 7\<rparr>, 1)"
    by (simp add: run_defs)
  have u3: "update_state 7 7 1 0 blinking
     = Inr (blinking\<lparr>eyes_closed_prev := False, eye_close_start := None,
              state_change_time := 7\<rparr>, 1)"
    by (simp add: run_defs)
  have r: "run (shut_at 6 # [shut_at (13/2), shut_at 7]) awake
     = Inr (blinking\<lparr>state_change_time := 7\<rparr>)"
    by (simp add: run_defs)
  have c1: "blink_timestamps blinking = prune 6 (blink_timestamps awake) @ [6] \<and>
      eyes_closed_prev blinking \<and> eye_close_start blinking = Some 6"
    using blink_leading_edge [of awake "7/10" 6 6 0 0 blinking 1, THEN conjunct1] t u1
    by simp
  have c2: "blink_timestamps (blinking\<lparr>state_change_time := 7\<rparr>)
      = prune 7 (blink_timestamps blinking)"
    using blink_leading_edge [of blinking "7/10" 7 7 0 0
        "blinking\<lparr>state_change_time := 7\<rparr>" 1, THEN conjunct1] t u2
    by simp
  have c3: "eye_close_start (blinking\<lparr>eyes_closed_prev := False, eye_close_start := None,
              state_change_time := 7\<rparr>) = None"
    using blink_leading_edge [of blinking "7/10" 7 7 1 0
        "blinking\<lparr>eyes_closed_prev := False, eye_close_start := None,
              state_change_time := 7\<rparr>" 1, THEN conjunct1] t u3
    by simp
  have w: "\<forall>x\<in>set (blink_timestamps awake @ [instant (shut_at 6)]).
      \<forall>t\<in>set (map instant (shut_at 6 # [shut_at (13/2), shut_at 7])). t - x \<le> BLINK_WINDOW"
    by (simp add: frame_simps awake_def init_def BLINK_WINDOW_def)
  have "\<exists>m'. run (shut_at 6 # [shut_at (13/2), shut_at 7]) awake = Inr m' \<and>
      length (blink_timestamps m') \<le> length (blink_timestamps awake) + 1 \<and>
      blink_timestamps m' = blink_timestamps awake @ [instant (shut_at 6)]"
    using blink_leading_edge [of awake "7/10" 6 6 0 0 blinking 1 "shut_at 6"
        "[shut_at (13/2), shut_at 7]", THEN conjunct2] t eyes_shut_at w
    by auto
  then have c4: "length (blink_timestamps (blinking\<lparr>state_change_time := 7\<rparr>))
        \<le> length (blink_timestamps awake) + 1 \<and>
      blink_timestamps (blinking\<lparr>state_change_time := 7\<rparr>) = blink_timestamps awake @ [6]"
    using r by (auto simp: frame_simps)
  show ?thesis using t u1 u2 u3 r c1 c2 c3 c4 eyes_shut_at by simp
qed

lemma handle_face_lost_timestamps:
  "blink_timestamps (handle_face_lost t t' m) = blink_timestamps m"
  by (simp add: handle_face_lost_def trigger_alarm_fields split: option.splits)

lemma calibrate_timestamps:
  "calibrate t t' ear m = Inr m' \<Longrightarrow> blink_timestamps m' = blink_timestamps m"
  by (auto simp: calibrate_def Let_def split: if_splits sum.splits)

lemma blink_closure_timestamps:
  "blink_timestamps (blink_closure now ear thr m) = blink_timestamps m \<or>
   blink_timestamps (blink_closure now ear thr m) = blink_timestamps m @ [now]"
  by (simp add: blink_closure_def)

lemma loop_body_timestamps:
  assumes "loop_body d t t' m = Inr m'"
  shows "blink_timestamps m' = blink_timestamps m \<or>
         blink_timestamps m' = prune t (blink_timestamps m) \<or>
         blink_timestamps m' = prune t (blink_timestamps m @ [t])"
proof (cases d)
  case NoFace
  then show ?thesis using assms by (auto simp: handle_face_lost_timestamps)
next
  case (Face l r mo)
  define m0 where "m0 = m\<lparr>face_lost_start := None\<rparr>"
  from assms Face obtain ear mar where
    c: "calibrate t t' ear m0 = Inr m' \<or> (\<exists>br. update_state t t' ear mar m0 = Inr (m', br))"
    by (auto simp: Let_def m0_def split: sum.splits if_splits prod.splits)
  then show ?thesis
  proof
    assume "calibrate t t' ear m0 = Inr m'"
    then show ?thesis using calibrate_timestamps by (fastforce simp: m0_def)
  next
    assume "\<exists>br. update_state t t' ear mar m0 = Inr (m', br)"
    then obtain br where u: "update_state t t' ear mar m0 = Inr (m', br)" by blast
    then obtain thr where thr: "ear_threshold m0 = Some thr"
      using update_state_threshold by blast
    show ?thesis
      using update_state_tracking(1) [OF thr u] blink_closure_timestamps [of t ear thr m0]
      by (auto simp: m0_def)
  qed
qed

lemma run_sorted:
  assumes "sorted (blink_timestamps m)"
    and "\<forall>x\<in>set (blink_timestamps m). \<forall>f\<in>set fs. x \<le> instant f"
    and "sorted (map instant fs)" and "run fs m = Inr m'"
  shows "sorted (blink_timestamps m')"
  using assms
proof (induction fs arbitrary: m)
  case Nil
  then show ?case by simp
next
  case (Cons f fs)
  from Cons.prems(4) obtain m1 where
    l: "loop_body (fst f) (instant f) (snd (snd f)) m = Inr m1" and r: "run fs m1 = Inr m'"
    by (auto simp: run_Cons split: sum.splits)
  have le: "\<forall>x\<in>set (blink_timestamps m). x \<le> instant f" using Cons.prems(2) by simp
  then have app: "sorted (blink_timestamps m @ [instant f])"
    using Cons.prems(1) by (simp add: sorted_append)
  have s1: "sorted (blink_timestamps m1)"
    using loop_body_timestamps [OF l] Cons.prems(1) app prune_keeps_sorted by auto
  have sub: "set (blink_timestamps m1) \<subseteq> set (blink_timestamps m) \<union> {instant f}"
    using loop_body_timestamps [OF l] prune_subset [of "instant f" "blink_timestamps m"]
      prune_subset [of "instant f" "blink_timestamps m @ [instant f]"]
    by auto
  have later: "\<forall>g\<in>set fs. instant f \<le> instant g" using Cons.prems(3) by simp
  have b1: "\<forall>x\<in>set (blink_timestamps m1). \<forall>g\<in>set fs. x \<le> instant g"
    using sub later Cons.prems(2) by fastforce
  have "sorted (map instant fs)" using Cons.prems(3) by simp
  from Cons.IH [OF s1 b1 this r] show ?case .
qed

text \<open>
  Claim C8. With the blink timestamps in chronological order, update_state leaves exactly
  the timestamps that are no older than 60 s at the current instant (the onset of this
  frame included), returns their number as the blink rate, and so counts no timestamp
  older than 60 s. The timestamps are in chronological order in every state of a run
  from a fresh monitor whose frame instants never decrease.
\<close>

theorem blink_window:
  "(ear_threshold m = Some thr \<and> sorted (blink_timestamps m) \<and>
    update_state now now' ear mar m = Inr (m', br) \<longrightarrow>
      blink_timestamps m' =
        filter (\<lambda>x. now - x \<le> BLINK_WINDOW) (blink_timestamps (blink_closure now ear thr m)) \<and>
      br = length (blink_timestamps m') \<and>
      (\<forall>x\<in>set (blink_timestamps m'). now - x \<le> BLINK_WINDOW)) \<and>
   (sorted (map instant fs) \<and> run fs (init t0 t1) = Inr m1 \<longrightarrow> sorted (blink_timestamps m1))"
proof (intro conjI impI)
  assume a: "ear_threshold m = Some thr \<and> sorted (blink_timestamps m) \<and>
    update_state now now' ear mar m = Inr (m', br)"
  then have thr: "ear_threshold m = Some thr" and srt: "sorted (blink_timestamps m)"
    and u: "update_state now now' ear mar m = Inr (m', br)"
    by simp_all
  have eq: "blink_timestamps m' = prune now (blink_timestamps (blink_closure now ear thr m))"
    by (rule update_state_tracking(1) [OF thr u])
  have "prune now (blink_timestamps m @ [now]) =
      filter (\<lambda>x. now - x \<le> BLINK_WINDOW) (blink_timestamps m @ [now])"
    using srt by (simp add: prune_snoc_now prune_sorted BLINK_WINDOW_def)
  then show f: "blink_timestamps m' =
      filter (\<lambda>x. now - x \<le> BLINK_WINDOW) (blink_timestamps (blink_closure now ear thr m))"
    using eq srt blink_closure_timestamps [of now ear thr m] prune_sorted [of "blink_timestamps m" now]
    by auto
  show "br = length (blink_timestamps m')" by (rule update_state_tracking(4) [OF thr u])
  show "\<forall>x\<in>set (blink_timestamps m'). now - x \<le> BLINK_WINDOW" using f by simp
next
  assume "sorted (map instant fs) \<and> run fs (init t0 t1) = Inr m1"
  then show "sorted (blink_timestamps m1)"
    using run_sorted [of "init t0 t1" fs m1] by (simp add: init_def)
qed

lemma long_drive_run:
  "run long_drive (init 0 0)
     = Inr (awake\<lparr>blink_timestamps := [70], eyes_closed_prev := True,
              eye_close_start := Some 70, state_change_time := 70\<rparr>)"
  by (simp add: long_drive_def run_defs)

theorem blink_window_witness:
  "ear_threshold blinked = Some (7/10) \<and> sorted (blink_timestamps blinked) \<and>
   update_state 70 70 0 0 blinked
     = Inr (blinked\<lparr>blink_timestamps := [30, 65, 70], eyes_closed_prev := True,
              eye_close_start := Some 70, state_change_time := 70\<rparr>, 3) \<and>
   blink_timestamps (blink_closure 70 0 (7/10) blinked) = [6, 30, 65, 70] \<and>
   (70 :: real) - 6 > BLINK_WINDOW \<and> (70 :: real) - 30 \<le> BLINK_WINDOW \<and>
   sorted (map instant long_drive) \<and>
   run long_drive (init 0 0)
     = Inr (awake\<lparr>blink_timestamps := [70], eyes_closed_prev := True,
              eye_close_start := Some 70, state_change_time := 70\<rparr>) \<and>
   sorted (blink_timestamps (awake\<lparr>blink_timestamps := [70], eyes_closed_prev := True,
              eye_close_start := Some 70, state_change_time := 70\<rparr>))"
  using blink_window [of blinked "7/10" 70 70 0 0
      "blinked\<lparr>blink_timestamps := [30, 65, 70], eyes_closed_prev := True,
              eye_close_start := Some 70, state_change_time := 70\<rparr>" 3 long_drive 0 0
      "awake\<lparr>blink_timestamps := [70], eyes_closed_prev := True,
              eye_close_start := Some 70, state_change_time := 70\<rparr>"]
    long_drive_run
  by (simp add: long_drive_def frame_simps) (simp add: blinked_def run_defs)

section \<open>Hysteresis\<close>

lemma hysteresis_frame:
  assumes "ear_threshold m = Some thr"
    and "\<not> microsleep now (pruned now (blink_closure now ear thr m))"
    and "update_state now now' ear mar m = Inr (m', br)"
  shows "(new_state br mar \<noteq> state m \<and> now - state_change_time m > STATE_HOLD_TIME \<longrightarrow>
            state m' = new_state br mar \<and> state_change_time m' = now) \<and>
         (new_state br mar \<noteq> state m \<and> now - state_change_time m \<le> STATE_HOLD_TIME \<longrightarrow>
            state m' = state m \<and> state_change_time m' = state_change_time m) \<and>
         (new_state br mar = state m \<longrightarrow> state m' = state m \<and> state_change_time m' = now) \<and>
         (state m' \<noteq> state m \<longrightarrow> now - state_change_time m > STATE_HOLD_TIME)"
  unfolding update_state_quiet [OF assms]
  by (simp add: hold_def pruned_fields blink_closure_fields)

lemma calm_frame:
  assumes "ratios_of f = Some (ear, mar)" and "ear_threshold m = Some thr"
    and "state m \<noteq> CALIBRATING"
    and "instant f - state_change_time m \<le> STATE_HOLD_TIME"
    and "\<forall>s. eye_close_start m = Some s \<longrightarrow> instant f - s < MICROSLEEP_TIME"
  shows "\<exists>m'. loop_body (fst f) (instant f) (snd (snd f)) m = Inr m' \<and> state m' = state m \<and>
           ear_threshold m' = Some thr \<and>
           (state_change_time m' = state_change_time m \<or> state_change_time m' = instant f) \<and>
           (eye_close_start m' = eye_close_start m \<or> eye_close_start m' = Some (instant f) \<or>
            eye_close_start m' = None)"
proof -
  define m0 where "m0 = m\<lparr>face_lost_start := None\<rparr>"
  obtain m' br where u: "update_state (instant f) (snd (snd f)) ear mar m0 = Inr (m', br)"
    and l: "loop_body (fst f) (instant f) (snd (snd f)) m = Inr m'"
    using loop_body_update [OF assms(1,2,3)] m0_def by blast
  have thr0: "ear_threshold m0 = Some thr" using assms(2) by (simp add: m0_def)
  have no: "\<not> microsleep (instant f) (pruned (instant f) (blink_closure (instant f) ear thr m0))"
    using assms(5)
    by (auto simp: microsleep_def pruned_fields blink_closure_def m0_def MICROSLEEP_TIME_def
        split: option.splits)
  have h: "state m' = state m \<and>
      (state_change_time m' = state_change_time m \<or> state_change_time m' = instant f)"
    using hysteresis_frame [OF thr0 no u] assms(4) by (auto simp: m0_def)
  have e: "eye_close_start m' = eye_close_start m \<or> eye_close_start m' = Some (instant f) \<or>
      eye_close_start m' = None"
    using update_state_tracking(3) [OF thr0 u] by (auto simp: blink_closure_def m0_def)
  have "ear_threshold m' = Some thr" using update_state_frame [OF u] thr0 by simp
  then show ?thesis using l h e by blast
qed

lemma calm_window:
  assumes "\<forall>f\<in>set fs. ratios_of f \<noteq> None \<and> r \<le> instant f \<and> instant f - r \<le> STATE_HOLD_TIME"
    and "ear_threshold m = Some thr" and "state m \<noteq> CALIBRATING"
    and "r \<le> state_change_time m"
    and "\<forall>s. eye_close_start m = Some s \<longrightarrow> (\<forall>f\<in>set fs. instant f - s < MICROSLEEP_TIME)"
  shows "\<exists>m'. run fs m = Inr m' \<and> state m' = state m"
  using assms
proof (induction fs arbitrary: m)
  case Nil
  then show ?case by simp
next
  case (Cons f fs)
  obtain ear mar where r: "ratios_of f = Some (ear, mar)"
    using Cons.prems(1) by auto
  have w: "r \<le> instant f" "instant f - r \<le> STATE_HOLD_TIME" using Cons.prems(1) by simp_all
  then have h: "instant f - state_change_time m \<le> STATE_HOLD_TIME"
    using Cons.prems(4) by simp
  have c: "\<forall>s. eye_close_start m = Some s \<longrightarrow> instant f - s < MICROSLEEP_TIME"
    using Cons.prems(5) by simp
  from calm_frame [OF r Cons.prems(2,3) h c] obtain m1 where
    l: "loop_body (fst f) (instant f) (snd (snd f)) m = Inr m1" and s: "state m1 = state m"
    and t: "ear_threshold m1 = Some thr"
    and sc: "state_change_time m1 = state_change_time m \<or> state_change_time m1 = instant f"
    and ec: "eye_close_start m1 = eye_close_start m \<or> eye_close_start m1 = Some (instant f) \<or>
      eye_close_start m1 = None"
    by blast
  have p1: "\<forall>g\<in>set fs. ratios_of g \<noteq> None \<and> r \<le> instant g \<and> instant g - r \<le> STATE_HOLD_TIME"
    using Cons.prems(1) by simp
  have p3: "state m1 \<noteq> CALIBRATING" using s Cons.prems(3) by simp
  have p4: "r \<le> state_change_time m1" using sc w(1) Cons.prems(4) by auto
  have near: "\<forall>g\<in>set fs. instant g - instant f < MICROSLEEP_TIME"
    using p1 w(1) by (fastforce simp: STATE_HOLD_TIME_def MICROSLEEP_TIME_def)
  have p5: "\<forall>s. eye_close_start m1 = Some s \<longrightarrow> (\<forall>g\<in>set fs. instant g - s < MICROSLEEP_TIME)"
    using ec Cons.prems(5) near by auto
  from Cons.IH [OF p1 t p3 p4 p5] obtain m' where "run fs m1 = Inr m'" "state m' = state m1"
    by blast
  then show ?case using l s by (simp add: run_Cons)
qed

lemma hysteresis_core:
  "(ear_threshold m = Some thr \<and>
    \<not> microsleep now (pruned now (blink_closure now ear thr m)) \<and>
    update_state now now' ear mar m = Inr (m', br) \<longrightarrow>
      new_state br mar = (if 20 < br \<or> 0.6 < mar then DROWSY else NORMAL) \<and>
      (new_state br mar \<noteq> state m \<and> now - state_change_time m > STATE_HOLD_TIME \<longrightarrow>
         state m' = new_state br mar \<and> state_change_time m' = now) \<and>
      (new_state br mar \<noteq> state m \<and> now - state_change_time m \<le> STATE_HOLD_TIME \<longrightarrow>
         state m' = state m \<and> state_change_time m' = state_change_time m) \<and>
      (new_state br mar = state m \<longrightarrow> state m' = state m \<and> state_change_time m' = now) \<and>
      (state m' \<noteq> state m \<longrightarrow> now - state_change_time m \<ge> STATE_HOLD_TIME)) \<and>
   (ear_threshold m = Some thr \<and> state m \<noteq> CALIBRATING \<and>
    (\<forall>f\<in>set fs. ratios_of f \<noteq> None \<and> state_change_time m \<le> instant f \<and>
        instant f - state_change_time m \<le> STATE_HOLD_TIME) \<and>
    (\<forall>s. eye_close_start m = Some s \<longrightarrow> (\<forall>f\<in>set fs. instant f - s < MICROSLEEP_TIME)) \<longrightarrow>
      (\<exists>m'. run fs m = Inr m' \<and> state m' = state m))"
proof (intro conjI impI)
  assume a: "ear_threshold m = Some thr \<and>
    \<not> microsleep now (pruned now (blink_closure now ear thr m)) \<and>
    update_state now now' ear mar m = Inr (m', br)"
  then have h: "(new_state br mar \<noteq> state m \<and> now - state_change_time m > STATE_HOLD_TIME \<longrightarrow>
            state m' = new_state br mar \<and> state_change_time m' = now) \<and>
         (new_state br mar \<noteq> state m \<and> now - state_change_time m \<le> STATE_HOLD_TIME \<longrightarrow>
            state m' = state m \<and> state_change_time m' = state_change_time m) \<and>
         (new_state br mar = state m \<longrightarrow> state m' = state m \<and> state_change_time m' = now) \<and>
         (state m' \<noteq> state m \<longrightarrow> now - state_change_time m > STATE_HOLD_TIME)"
    using hysteresis_frame [of m thr now ear now' mar m' br] by blast
  show "new_state br mar = (if 20 < br \<or> 0.6 < mar then DROWSY else NORMAL)"
    by (simp add: new_state_def const_defs)
  {
    assume "new_state br mar \<noteq> state m \<and> now - state_change_time m > STATE_HOLD_TIME"
    then show "state m' = new_state br mar" and "state_change_time m' = now" using h by simp_all
  }
  {
    assume "new_state br mar \<noteq> state m \<and> now - state_change_time m \<le> STATE_HOLD_TIME"
    then show "state m' = state m" and "state_change_time m' = state_change_time m"
      using h by simp_all
  }
  {
    assume "new_state br mar = state m"
    then show "state m' = state m" and "state_change_time m' = now" using h by simp_all
  }
  {
    assume "state m' \<noteq> state m"
    then show "now - state_change_time m \<ge> STATE_HOLD_TIME" using h by simp
  }
next
  assume "ear_threshold m = Some thr \<and> state m \<noteq> CALIBRATING \<and>
    (\<forall>f\<in>set fs. ratios_of f \<noteq> None \<and> state_change_time m \<le> instant f \<and>
        instant f - state_change_time m \<le> STATE_HOLD_TIME) \<and>
    (\<forall>s. eye_close_start m = Some s \<longrightarrow> (\<forall>f\<in>set fs. instant f - s < MICROSLEEP_TIME))"
  then show "\<exists>m'. run fs m = Inr m' \<and> state m' = state m"
    using calm_window [of fs "state_change_time m" m thr] by simp
qed

text \<open>
  Claim C5, as amended. On a calibrated frame that the microsleep override does not take, the
  candidate is DROWSY when the blink rate is above 20 or the mouth ratio above 0.6, and
  NORMAL otherwise. A candidate that differs from the current state is committed when
  more than 1.0 s has passed since the hold timer's reference instant, and then the
  reference becomes the current instant; otherwise state and reference stay. So a change
  of state implies at least 1.0 s since the reference. A candidate equal to the current
  state refreshes the reference. Hence, over any run of frames with a face whose instants
  lie within 1.0 s after the reference instant (and with no closure reaching 2.0 s),
  no candidate is committed: the state at the end is the state at the start. The
  reference instant is not the age of the state: the microsleep override and the loss of
  the face set DANGER and leave the reference where it was.
\<close>

theorem hysteresis_hold:
  "((ear_threshold m = Some thr \<and>
    \<not> microsleep now (pruned now (blink_closure now ear thr m)) \<and>
    update_state now now' ear mar m = Inr (m', br) \<longrightarrow>
      new_state br mar = (if 20 < br \<or> 0.6 < mar then DROWSY else NORMAL) \<and>
      (new_state br mar \<noteq> state m \<and> now - state_change_time m > STATE_HOLD_TIME \<longrightarrow>
         state m' = new_state br mar \<and> state_change_time m' = now) \<and>
      (new_state br mar \<noteq> state m \<and> now - state_change_time m \<le> STATE_HOLD_TIME \<longrightarrow>
         state m' = state m \<and> state_change_time m' = state_change_time m) \<and>
      (new_state br mar = state m \<longrightarrow> state m' = state m \<and> state_change_time m' = now) \<and>
      (state m' \<noteq> state m \<longrightarrow> now - state_change_time m \<ge> STATE_HOLD_TIME)) \<and>
   (ear_threshold m = Some thr \<and> state m \<noteq> CALIBRATING \<and>
    (\<forall>f\<in>set fs. ratios_of f \<noteq> None \<and> state_change_time m \<le> instant f \<and>
        instant f - state_change_time m \<le> STATE_HOLD_TIME) \<and>
    (\<forall>s. eye_close_start m = Some s \<longrightarrow> (\<forall>f\<in>set fs. instant f - s < MICROSLEEP_TIME)) \<longrightarrow>
      (\<exists>m'. run fs m = Inr m' \<and> state m' = state m))) \<and>
   (ear_threshold m = Some thr \<and>
    microsleep now (pruned now (blink_closure now ear thr m)) \<and>
    update_state now now' ear mar m = Inr (m', br) \<longrightarrow>
      state m' = DANGER \<and> state_change_time m' = state_change_time m) \<and>
   state_change_time (handle_face_lost t t' m) = state_change_time m"
proof -
  have c: "(ear_threshold m = Some thr \<and>
    \<not> microsleep now (pruned now (blink_closure now ear thr m)) \<and>
    update_state now now' ear mar m = Inr (m', br) \<longrightarrow>
      new_state br mar = (if 20 < br \<or> 0.6 < mar then DROWSY else NORMAL) \<and>
      (new_state br mar \<noteq> state m \<and> now - state_change_time m > STATE_HOLD_TIME \<longrightarrow>
         state m' = new_state br mar \<and> state_change_time m' = now) \<and>
      (new_state br mar \<noteq> state m \<and> now - state_change_time m \<le> STATE_HOLD_TIME \<longrightarrow>
         state m' = state m \<and> state_change_time m' = state_change_time m) \<and>
      (new_state br mar = state m \<longrightarrow> state m' = state m \<and> state_change_time m' = now) \<and>
      (state m' \<noteq> state m \<longrightarrow> now - state_change_time m \<ge> STATE_HOLD_TIME)) \<and>
   (ear_threshold m = Some thr \<and> state m \<noteq> CALIBRATING \<and>
    (\<forall>f\<in>set fs. ratios_of f \<noteq> None \<and> state_change_time m \<le> instant f \<and>
        instant f - state_change_time m \<le> STATE_HOLD_TIME) \<and>
    (\<forall>s. eye_close_start m = Some s \<longrightarrow> (\<forall>f\<in>set fs. instant f - s < MICROSLEEP_TIME)) \<longrightarrow>
      (\<exists>m'. run fs m = Inr m' \<and> state m' = state m))"
    by (rule hysteresis_core)
  have o: "ear_threshold m = Some thr \<and>
    microsleep now (pruned now (blink_closure now ear thr m)) \<and>
    update_state now now' ear mar m = Inr (m', br) \<longrightarrow>
      state m' = DANGER \<and> state_change_time m' = state_change_time m"
  proof
    assume "ear_threshold m = Some thr \<and>
      microsleep now (pruned now (blink_closure now ear thr m)) \<and>
      update_state now now' ear mar m = Inr (m', br)"
    then have "m' = trigger_alarm now' ((pruned now (blink_closure now ear thr m))\<lparr>state := DANGER\<rparr>)"
      by (auto simp: update_state_eq Let_def)
    then show "state m' = DANGER \<and> state_change_time m' = state_change_time m"
      by (simp add: trigger_alarm_fields pruned_fields blink_closure_fields)
  qed
  have f: "state_change_time (handle_face_lost t t' m) = state_change_time m"
    by (simp add: handle_face_lost_def trigger_alarm_fields split: option.splits)
  show ?thesis by (rule conjI [OF c conjI [OF o f]])
qed

theorem hysteresis_hold_witness:
  "ear_threshold awake = Some (7/10) \<and>
   \<not> microsleep (11/2) (pruned (11/2) (blink_closure (11/2) 1 (7/10) awake)) \<and>
   update_state (11/2) (11/2) 1 1 awake = Inr (awake, 0) \<and>
   new_state 0 1 = DROWSY \<and> new_state 0 1 \<noteq> state awake \<and>
   (11/2 :: real) - state_change_time awake \<le> STATE_HOLD_TIME \<and>
   \<not> microsleep (13/2) (pruned (13/2) (blink_closure (13/2) 1 (7/10) awake)) \<and>
   update_state (13/2) (13/2) 1 1 awake
     = Inr (awake\<lparr>state := DROWSY, state_change_time := 13/2\<rparr>, 0) \<and>
   (13/2 :: real) - state_change_time awake > STATE_HOLD_TIME \<and>
   state (awake\<lparr>state := DROWSY, state_change_time := 13/2\<rparr>) \<noteq> state awake \<and>
   update_state (11/2) (11/2) 1 0 awake = Inr (awake\<lparr>state_change_time := 11/2\<rparr>, 0) \<and>
   new_state 0 0 = state awake \<and>
   state awake \<noteq> CALIBRATING \<and> eye_close_start awake = None \<and>
   ratios_of (yawn_at (26/5)) \<noteq> None \<and> state_change_time awake \<le> instant (yawn_at (26/5)) \<and>
   instant (yawn_at (26/5)) - state_change_time awake \<le> STATE_HOLD_TIME \<and>
   ratios_of (yawn_at (28/5)) \<noteq> None \<and> state_change_time awake \<le> instant (yawn_at (28/5)) \<and>
   instant (yawn_at (28/5)) - state_change_time awake \<le> STATE_HOLD_TIME \<and>
   ratios_of (open_at 6) \<noteq> None \<and> state_change_time awake \<le> instant (open_at 6) \<and>
   instant (open_at 6) - state_change_time awake \<le> STATE_HOLD_TIME \<and>
   run [yawn_at (26/5), yawn_at (28/5), open_at 6] awake
     = Inr (awake\<lparr>state_change_time := 6\<rparr>) \<and>
   state (awake\<lparr>state_change_time := 6\<rparr>) = state awake \<and>
   ear_threshold blinking = Some (7/10) \<and>
   microsleep (17/2) (pruned (17/2) (blink_closure (17/2) 0 (7/10) blinking)) \<and>
   update_state (17/2) (17/2) 0 0 blinking
     = Inr (blinking\<lparr>state := DANGER, last_alarm_time := 17/2, beeps := [17/2]\<rparr>, 1) \<and>
   state_change_time (blinking\<lparr>state := DANGER, last_alarm_time := 17/2, beeps := [17/2]\<rparr>)
     = state_change_time blinking \<and>
   state_change_time (handle_face_lost 8 8 (awake\<lparr>face_lost_start := Some 6\<rparr>))
     = state_change_time awake \<and>
   state (handle_face_lost 8 8 (awake\<lparr>face_lost_start := Some 6\<rparr>)) = DANGER"
  using hysteresis_hold [of awake "7/10" "11/2" 1 "11/2" 1 awake 0
      "[yawn_at (26/5), yawn_at (28/5), open_at 6]"]
    hysteresis_hold [of awake "7/10" "13/2" 1 "13/2" 1
      "awake\<lparr>state := DROWSY, state_change_time := 13/2\<rparr>" 0
      "[yawn_at (26/5), yawn_at (28/5), open_at 6]"]
    hysteresis_hold [of awake "7/10" "11/2" 1 "11/2" 0
      "awake\<lparr>state_change_time := 11/2\<rparr>" 0
      "[yawn_at (26/5), yawn_at (28/5), open_at 6]"]
    hysteresis_hold [of blinking "7/10" "17/2" 0 "17/2" 0
      "blinking\<lparr>state := DANGER, last_alarm_time := 17/2, beeps := [17/2]\<rparr>" 1 "[]" 8 8]
    hysteresis_hold [of "awake\<lparr>face_lost_start := Some 6\<rparr>" "7/10" "11/2" 1 "11/2" 1
      "awake\<lparr>face_lost_start := Some 6\<rparr>" 0 "[]" 8 8]
  by (simp add: frame_simps) (simp add: run_defs)

text \<open>
  The state that a commit replaces need not have been held for 1.0 s: the face is lost at
  6, the loss sets DANGER at 8, and the open-eyed frame at 8.1 replaces the DANGER that is
  0.1 s old by NORMAL, because the reference instant is still 5. Nor does a candidate
  need 1.0 s of votes: with the reference at 5 and the face away on the frames at 5.5 and
  6, the one yawning frame at 6.5 makes the state DROWSY at once; the candidate reverts on
  the frame at 6.6 and the state stays DROWSY.
\<close>

theorem hysteresis_hold_counterexample:
  "run [open_at 5] (init 0 0) = Inr awake \<and> state awake = NORMAL \<and>
   state_change_time awake = 5 \<and>
   run [(NoFace, 6, 6), (NoFace, 8, 8)] awake
     = Inr (awake\<lparr>face_lost_start := Some 6, state := DANGER,
              last_alarm_time := 8, beeps := [8]\<rparr>) \<and>
   run [(NoFace, 6, 6), (NoFace, 8, 8), open_at (81/10)] awake
     = Inr (awake\<lparr>state := NORMAL, state_change_time := 81/10,
              last_alarm_time := 8, beeps := [8]\<rparr>) \<and>
   run [(NoFace, 11/2, 11/2), (NoFace, 6, 6), yawn_at (13/2)] awake
     = Inr (awake\<lparr>state := DROWSY, state_change_time := 13/2\<rparr>) \<and>
   run [(NoFace, 11/2, 11/2), (NoFace, 6, 6), yawn_at (13/2), open_at (33/5)] awake
     = Inr (awake\<lparr>state := DROWSY, state_change_time := 13/2\<rparr>)"
  by (simp add: run_defs)

section \<open>Microsleep override\<close>

text \<open>
  With a closure episode whose start instant is not 0.0 and whose duration has reached
  2.0 s, update_state sets DANGER, requests the alarm and returns the blink rate.
\<close>

lemma microsleep_override:
  assumes "ear_threshold m = Some thr"
    and "eye_close_start (blink_closure now ear thr m) = Some s"
    and "s \<noteq> 0" and "now - s \<ge> MICROSLEEP_TIME"
  shows "update_state now now' ear mar m =
           Inr (trigger_alarm now' ((pruned now (blink_closure now ear thr m))\<lparr>state := DANGER\<rparr>),
                length (prune now (blink_timestamps (blink_closure now ear thr m))))"
  using assms by (simp add: update_state_eq Let_def microsleep_def pruned_fields)

lemma late_onset_run:
  "run late_onset (init (- 6) (- 6)) =
     Inr \<lparr> blink_timestamps = [1], eyes_closed_prev = True, eye_close_start = Some 1,
           face_lost_start = None, state = DANGER, state_change_time = 1,
           ear_threshold = Some (7/10), calibration_values = [1], calibration_start = - 6,
           last_alarm_time = 7/2, beeps = [7/2] \<rparr>"
  by (simp add: late_onset_def run_defs)

lemma calibrate_start:
  "calibrate t t' ear m = Inr m' \<Longrightarrow> eye_close_start m' = eye_close_start m"
  by (auto simp: calibrate_def Let_def split: if_splits sum.splits)

lemma handle_face_lost_start:
  "eye_close_start (handle_face_lost t t' m) = eye_close_start m"
  by (simp add: handle_face_lost_def trigger_alarm_fields split: option.splits)

lemma blink_closure_start:
  "eye_close_start (blink_closure now ear thr m) = eye_close_start m \<or>
   eye_close_start (blink_closure now ear thr m) = Some now \<or>
   eye_close_start (blink_closure now ear thr m) = None"
  by (simp add: blink_closure_def)

lemma blink_closure_face_lost:
  "blink_closure now ear thr (m\<lparr>face_lost_start := x\<rparr>)
     = (blink_closure now ear thr m)\<lparr>face_lost_start := x\<rparr>"
  by (simp add: blink_closure_def)

text \<open>A frame whose instant is not 0.0 never records 0.0 as the start of a closure.\<close>

lemma loop_body_start:
  assumes "loop_body d t t' m = Inr m'" and "t \<noteq> 0" and "eye_close_start m \<noteq> Some 0"
  shows "eye_close_start m' \<noteq> Some 0"
proof (cases d)
  case NoFace
  then show ?thesis using assms by (auto simp: handle_face_lost_start)
next
  case (Face l r mo)
  define m0 where "m0 = m\<lparr>face_lost_start := None\<rparr>"
  from assms(1) Face obtain ear mar where
    c: "calibrate t t' ear m0 = Inr m' \<or> (\<exists>br. update_state t t' ear mar m0 = Inr (m', br))"
    by (auto simp: Let_def m0_def split: sum.splits if_splits prod.splits)
  then show ?thesis
  proof
    assume "calibrate t t' ear m0 = Inr m'"
    from calibrate_start [OF this] show ?thesis using assms(3) by (simp add: m0_def)
  next
    assume "\<exists>br. update_state t t' ear mar m0 = Inr (m', br)"
    then obtain br where u: "update_state t t' ear mar m0 = Inr (m', br)" by blast
    then obtain thr where thr: "ear_threshold m0 = Some thr"
      using update_state_threshold by blast
    show ?thesis
      using update_state_tracking(3) [OF thr u] blink_closure_start [of t ear thr m0]
        assms(2,3)
      by (auto simp: m0_def)
  qed
qed

lemma run_start:
  assumes "\<forall>f\<in>set fs. instant f \<noteq> 0" and "eye_close_start m \<noteq> Some 0"
    and "run fs m = Inr m'"
  shows "eye_close_start m' \<noteq> Some 0"
  using assms
proof (induction fs arbitrary: m)
  case Nil
  then show ?case by simp
next
  case (Cons f fs)
  from Cons.prems(3) obtain m1 where
    l: "loop_body (fst f) (instant f) (snd (snd f)) m = Inr m1" and r: "run fs m1 = Inr m'"
    by (auto simp: run_Cons split: sum.splits)
  have "instant f \<noteq> 0" using Cons.prems(1) by simp
  from loop_body_start [OF l this Cons.prems(2)] have "eye_close_start m1 \<noteq> Some 0" .
  moreover have "\<forall>g\<in>set fs. instant g \<noteq> 0" using Cons.prems(1) by simp
  ultimately show ?case using Cons.IH r by blast
qed

lemma override_frame:
  assumes "ratios_of f = Some (ear, mar)" and "ear_threshold m = Some thr"
    and "state m \<noteq> CALIBRATING"
    and "eye_close_start (blink_closure (instant f) ear thr m) = Some s"
    and "s \<noteq> 0" and "instant f - s \<ge> MICROSLEEP_TIME"
  shows "loop_body (fst f) (instant f) (snd (snd f)) m =
           Inr (trigger_alarm (snd (snd f))
                 ((pruned (instant f)
                     (blink_closure (instant f) ear thr (m\<lparr>face_lost_start := None\<rparr>)))
                    \<lparr>state := DANGER\<rparr>))"
proof -
  define m0 where "m0 = m\<lparr>face_lost_start := None\<rparr>"
  obtain m' br where u: "update_state (instant f) (snd (snd f)) ear mar m0 = Inr (m', br)"
    and l: "loop_body (fst f) (instant f) (snd (snd f)) m = Inr m'"
    using loop_body_update [OF assms(1,2,3)] m0_def by blast
  have thr0: "ear_threshold m0 = Some thr" using assms(2) by (simp add: m0_def)
  have s0: "eye_close_start (blink_closure (instant f) ear thr m0) = Some s"
    using assms(4) by (simp add: m0_def blink_closure_face_lost)
  from microsleep_override [OF thr0 s0 assms(5,6), of "snd (snd f)" mar] u l
  show ?thesis by (simp add: m0_def)
qed

text \<open>
  Claim C1. When the closure episode, as it stands after the blink block of the frame, is
  active with a start instant other than 0.0 and has lasted at least 2.0 s, update_state
  sets the state to DANGER, requests the alarm and returns the blink rate on that frame,
  whatever the hold timer says, and leaves the hold timer's reference untouched. In a
  run of the main loop from a fresh monitor in which no frame is taken at clock reading
  0.0, the start instant is never 0.0, so there every calibrated frame with an active
  closure episode of at least 2.0 s ends in DANGER with the alarm requested.
\<close>

theorem microsleep_override_immediate:
  "(ear_threshold m = Some thr \<and> eye_close_start (blink_closure now ear thr m) = Some s \<and>
    s \<noteq> 0 \<and> now - s \<ge> MICROSLEEP_TIME \<longrightarrow>
      update_state now now' ear mar m =
        Inr (trigger_alarm now' ((pruned now (blink_closure now ear thr m))\<lparr>state := DANGER\<rparr>),
             length (prune now (blink_timestamps (blink_closure now ear thr m)))) \<and>
      state (trigger_alarm now' ((pruned now (blink_closure now ear thr m))\<lparr>state := DANGER\<rparr>))
        = DANGER \<and>
      state_change_time
          (trigger_alarm now' ((pruned now (blink_closure now ear thr m))\<lparr>state := DANGER\<rparr>))
        = state_change_time m) \<and>
   ((\<forall>g\<in>set fs. instant g \<noteq> 0) \<and> run fs (init t0 t1) = Inr m1 \<longrightarrow>
      eye_close_start m1 \<noteq> Some 0 \<and>
      (instant f \<noteq> 0 \<and> ratios_of f = Some (ear, mar) \<and> state m1 \<noteq> CALIBRATING \<and>
       ear_threshold m1 = Some thr \<and>
       eye_close_start (blink_closure (instant f) ear thr m1) = Some s \<and>
       instant f - s \<ge> MICROSLEEP_TIME \<longrightarrow>
         (\<exists>m'. loop_body (fst f) (instant f) (snd (snd f)) m1 = Inr m' \<and>
            m' = trigger_alarm (snd (snd f))
                   ((pruned (instant f)
                       (blink_closure (instant f) ear thr (m1\<lparr>face_lost_start := None\<rparr>)))
                      \<lparr>state := DANGER\<rparr>) \<and>
            state m' = DANGER \<and> state_change_time m' = state_change_time m1)))"
proof (intro conjI impI)
  assume a: "ear_threshold m = Some thr \<and>
    eye_close_start (blink_closure now ear thr m) = Some s \<and> s \<noteq> 0 \<and> now - s \<ge> MICROSLEEP_TIME"
  then show "update_state now now' ear mar m =
        Inr (trigger_alarm now' ((pruned now (blink_closure now ear thr m))\<lparr>state := DANGER\<rparr>),
             length (prune now (blink_timestamps (blink_closure now ear thr m))))"
    using microsleep_override [of m thr now ear s now' mar] by simp
  show "state (trigger_alarm now' ((pruned now (blink_closure now ear thr m))\<lparr>state := DANGER\<rparr>))
        = DANGER"
    by (simp add: trigger_alarm_fields)
  show "state_change_time
          (trigger_alarm now' ((pruned now (blink_closure now ear thr m))\<lparr>state := DANGER\<rparr>))
        = state_change_time m"
    by (simp add: trigger_alarm_fields pruned_fields blink_closure_fields)
next
  assume a: "(\<forall>g\<in>set fs. instant g \<noteq> 0) \<and> run fs (init t0 t1) = Inr m1"
  have "eye_close_start (init t0 t1) \<noteq> Some 0" by (simp add: init_def)
  with a show nz: "eye_close_start m1 \<noteq> Some 0" using run_start [of fs "init t0 t1" m1] by blast
  assume b: "instant f \<noteq> 0 \<and> ratios_of f = Some (ear, mar) \<and> state m1 \<noteq> CALIBRATING \<and>
       ear_threshold m1 = Some thr \<and>
       eye_close_start (blink_closure (instant f) ear thr m1) = Some s \<and>
       instant f - s \<ge> MICROSLEEP_TIME"
  have "s \<noteq> 0"
    using blink_closure_start [of "instant f" ear thr m1] nz b by auto
  with b have "loop_body (fst f) (instant f) (snd (snd f)) m1 =
           Inr (trigger_alarm (snd (snd f))
                 ((pruned (instant f)
                     (blink_closure (instant f) ear thr (m1\<lparr>face_lost_start := None\<rparr>)))
                    \<lparr>state := DANGER\<rparr>))"
    using override_frame [of f ear mar m1 thr s] by simp
  then show "\<exists>m'. loop_body (fst f) (instant f) (snd (snd f)) m1 = Inr m' \<and>
            m' = trigger_alarm (snd (snd f))
                   ((pruned (instant f)
                       (blink_closure (instant f) ear thr (m1\<lparr>face_lost_start := None\<rparr>)))
                      \<lparr>state := DANGER\<rparr>) \<and>
            state m' = DANGER \<and> state_change_time m' = state_change_time m1"
    by (simp add: trigger_alarm_fields pruned_fields blink_closure_fields)
qed

lemma frame_second_reading:
  "snd (snd (open_at t)) = t" "snd (snd (shut_at t)) = t" "snd (snd (yawn_at t)) = t"
  by (simp_all add: open_at_def shut_at_def yawn_at_def)

theorem microsleep_override_immediate_witness:
  "ear_threshold blinking = Some (7/10) \<and>
   eye_close_start (blink_closure (17/2) 0 (7/10) blinking) = Some 6 \<and> (6 :: real) \<noteq> 0 \<and>
   (17/2 :: real) - 6 \<ge> MICROSLEEP_TIME \<and>
   update_state (17/2) (17/2) 0 0 blinking
     = Inr (blinking\<lparr>state := DANGER, last_alarm_time := 17/2, beeps := [17/2]\<rparr>, 1) \<and>
   state_change_time (blinking\<lparr>state := DANGER, last_alarm_time := 17/2, beeps := [17/2]\<rparr>)
     = state_change_time blinking \<and>
   instant (open_at 5) \<noteq> 0 \<and> instant (shut_at 6) \<noteq> 0 \<and>
   run [open_at 5, shut_at 6] (init 0 0) = Inr blinking \<and>
   eye_close_start blinking \<noteq> Some 0 \<and>
   instant (shut_at (17/2)) \<noteq> 0 \<and> ratios_of (shut_at (17/2)) = Some (0, 0) \<and>
   state blinking \<noteq> CALIBRATING \<and>
   loop_body (fst (shut_at (17/2))) (instant (shut_at (17/2))) (snd (snd (shut_at (17/2)))) blinking
     = Inr (blinking\<lparr>state := DANGER, last_alarm_time := 17/2, beeps := [17/2]\<rparr>)"
proof -
  have t: "ear_threshold blinking = Some (7/10)" "state blinking \<noteq> CALIBRATING"
    "eye_close_start (blink_closure (17/2) 0 (7/10) blinking) = Some 6"
    "(17/2 :: real) - 6 \<ge> MICROSLEEP_TIME"
    by (simp_all add: run_defs)
  have r: "run [open_at 5, shut_at 6] (init 0 0) = Inr blinking"
    by (simp add: run_defs)
  have e: "trigger_alarm (17/2) ((pruned (17/2) (blink_closure (17/2) 0 (7/10) blinking))\<lparr>state := DANGER\<rparr>)
     = blinking\<lparr>state := DANGER, last_alarm_time := 17/2, beeps := [17/2]\<rparr>"
    "length (prune (17/2) (blink_timestamps (blink_closure (17/2) 0 (7/10) blinking))) = 1"
    "trigger_alarm (17/2) ((pruned (17/2) (blink_closure (17/2) 0 (7/10)
        (blinking\<lparr>face_lost_start := None\<rparr>)))\<lparr>state := DANGER\<rparr>)
     = blinking\<lparr>state := DANGER, last_alarm_time := 17/2, beeps := [17/2]\<rparr>"
    by (simp_all add: run_defs)
  have c1: "update_state (17/2) (17/2) 0 0 blinking
      = Inr (blinking\<lparr>state := DANGER, last_alarm_time := 17/2, beeps := [17/2]\<rparr>, 1) \<and>
    state_change_time (blinking\<lparr>state := DANGER, last_alarm_time := 17/2, beeps := [17/2]\<rparr>)
      = state_change_time blinking"
    using microsleep_override_immediate [of blinking "7/10" "17/2" 0 6 "17/2" 0, THEN conjunct1] t e
    by simp
  have c2: "eye_close_start blinking \<noteq> Some 0 \<and>
    loop_body (fst (shut_at (17/2))) (instant (shut_at (17/2))) (snd (snd (shut_at (17/2)))) blinking
      = Inr (blinking\<lparr>state := DANGER, last_alarm_time := 17/2, beeps := [17/2]\<rparr>)"
    using microsleep_override_immediate [of blinking "7/10" "17/2" 0 6 "17/2" 0
        "[open_at 5, shut_at 6]" 0 0 blinking "shut_at (17/2)", THEN conjunct2] t r e
    by (simp add: frame_simps frame_second_reading)
  show ?thesis using t r c1 c2 by (simp add: frame_simps)
qed

text \<open>
  The start instant 0.0 needs a frame taken at clock reading 0.0. After such an onset the
  eyes can stay shut for 2.5 s with the state still NORMAL and no alarm requested, where
  the same frames one second later end in DANGER (\<open>late_onset_run\<close>).
\<close>

lemma zero_onset_run:
  "run zero_onset (init (- 6) (- 6)) =
     Inr \<lparr> blink_timestamps = [0], eyes_closed_prev = True, eye_close_start = Some 0,
           face_lost_start = None, state = NORMAL, state_change_time = 5/2,
           ear_threshold = Some (7/10), calibration_values = [1], calibration_start = - 6,
           last_alarm_time = 0, beeps = [] \<rparr>"
  by (simp add: zero_onset_def run_defs)

text \<open>A closure episode that started at clock reading 0.0.\<close>

lemma zero_start_update:
  assumes "eye_close_start m = Some 0" and "ear_threshold m = Some thr"
  shows "\<not> microsleep now (pruned now (blink_closure now ear thr m)) \<and>
         update_state now now' ear mar m =
           Inr (hold now (new_state (length (prune now (blink_timestamps (blink_closure now ear thr m)))) mar)
                  (pruned now (blink_closure now ear thr m)),
                length (prune now (blink_timestamps (blink_closure now ear thr m)))) \<and>
         (\<forall>m' br. update_state now now' ear mar m = Inr (m', br) \<longrightarrow>
            beeps m' = beeps m \<and> last_alarm_time m' = last_alarm_time m \<and>
            (state m' = DANGER \<longrightarrow> state m = DANGER))"
proof -
  define m2 where "m2 = pruned now (blink_closure now ear thr m)"
  have no: "\<not> microsleep now m2"
    using assms(1)
    by (simp add: m2_def microsleep_def pruned_fields blink_closure_def MICROSLEEP_TIME_def)
  have eq: "update_state now now' ear mar m =
      Inr (hold now (new_state (length (blink_timestamps m2)) mar) m2, length (blink_timestamps m2))"
    using no assms(2) by (simp add: update_state_eq Let_def m2_def)
  have st: "state (hold now (new_state (length (blink_timestamps m2)) mar) m2) = DANGER
      \<longrightarrow> state m = DANGER"
    using hold_state [of now "new_state (length (blink_timestamps m2)) mar" m2]
      new_state_cases [of "length (blink_timestamps m2)" mar]
    by (auto simp: m2_def pruned_fields blink_closure_fields)
  show ?thesis
    using no eq st by (simp add: m2_def hold_fields pruned_fields blink_closure_fields)
qed

lemma zero_start_quiet:
  assumes "eye_close_start m = Some 0" and "ear_threshold m = Some thr"
    and "update_state now now' ear mar m = Inr (m', br)"
  shows "beeps m' = beeps m \<and> last_alarm_time m' = last_alarm_time m \<and>
         (state m' = DANGER \<longrightarrow> state m = DANGER)"
  using zero_start_update [OF assms(1,2), of now ear now' mar] assms(3) by blast

lemma zero_start_run:
  assumes "\<forall>f\<in>set fs. eyes_shut thr f" and "ear_threshold m = Some thr"
    and "state m \<noteq> CALIBRATING" and "eyes_closed_prev m" and "eye_close_start m = Some 0"
  shows "\<exists>m'. run fs m = Inr m' \<and> eye_close_start m' = Some 0 \<and> beeps m' = beeps m \<and>
           (state m' = DANGER \<longrightarrow> state m = DANGER)"
  using assms
proof (induction fs arbitrary: m)
  case Nil
  then show ?case by simp
next
  case (Cons f fs)
  obtain ear mar where r: "ratios_of f = Some (ear, mar)"
    using Cons.prems(1) eyes_shut_ratios [of thr f] by auto
  define m0 where "m0 = m\<lparr>face_lost_start := None\<rparr>"
  obtain m1 br where u: "update_state (instant f) (snd (snd f)) ear mar m0 = Inr (m1, br)"
    and l: "loop_body (fst f) (instant f) (snd (snd f)) m = Inr m1"
    using loop_body_update [OF r Cons.prems(2,3)] m0_def by blast
  have "eye_close_start m0 = Some 0" and "ear_threshold m0 = Some thr"
    using Cons.prems(2,5) by (simp_all add: m0_def)
  from zero_start_quiet [OF this u]
  have z: "beeps m1 = beeps m \<and> (state m1 = DANGER \<longrightarrow> state m = DANGER)"
    by (simp add: m0_def)
  have "eyes_shut thr f" using Cons.prems(1) by simp
  from shut_frame_continues [OF this Cons.prems(2,3,4)] l Cons.prems(5)
  have k: "eyes_closed_prev m1" "eye_close_start m1 = Some 0"
    "ear_threshold m1 = Some thr" "state m1 \<noteq> CALIBRATING"
    by auto
  have "\<forall>g\<in>set fs. eyes_shut thr g" using Cons.prems(1) by simp
  from Cons.IH [OF this k(3,4,1,2)] obtain m' where
    "run fs m1 = Inr m'" "eye_close_start m' = Some 0" "beeps m' = beeps m1"
    "state m' = DANGER \<longrightarrow> state m1 = DANGER"
    by blast
  then show ?case using l z by (auto simp: run_Cons)
qed

text \<open>
  Claim C10. When the recorded start of the closure episode is 0.0, update_state does not
  take the microsleep override, whatever the current instant: it goes through the hold
  logic, requests no alarm, and leaves the state DANGER only if it was DANGER before. As
  long as the eyes stay shut the start stays 0.0, so no run of such frames reaches DANGER
  or fires the alarm.
\<close>

theorem zero_instant_no_override:
  "(eye_close_start m = Some 0 \<and> ear_threshold m = Some thr \<longrightarrow>
      \<not> microsleep now (pruned now (blink_closure now ear thr m)) \<and>
      update_state now now' ear mar m =
        Inr (hold now (new_state (length (prune now (blink_timestamps (blink_closure now ear thr m)))) mar)
               (pruned now (blink_closure now ear thr m)),
             length (prune now (blink_timestamps (blink_closure now ear thr m)))) \<and>
      (\<forall>m' br. update_state now now' ear mar m = Inr (m', br) \<longrightarrow>
         beeps m' = beeps m \<and> last_alarm_time m' = last_alarm_time m \<and>
         (state m' = DANGER \<longrightarrow> state m = DANGER))) \<and>
   (eye_close_start m = Some 0 \<and> eyes_closed_prev m \<and> ear_threshold m = Some thr \<and>
    state m \<noteq> CALIBRATING \<and> (\<forall>f\<in>set fs. eyes_shut thr f) \<longrightarrow>
      (\<exists>m'. run fs m = Inr m' \<and> eye_close_start m' = Some 0 \<and> beeps m' = beeps m \<and>
         (state m' = DANGER \<longrightarrow> state m = DANGER)))"
  using zero_start_update [of m thr now ear now' mar] zero_start_run [of fs thr m]
  by blast

theorem zero_instant_no_override_witness:
  "eye_close_start dozing = Some 0 \<and> ear_threshold dozing = Some (7/10) \<and>
   eyes_closed_prev dozing \<and> state dozing \<noteq> CALIBRATING \<and>
   \<not> microsleep (5/2) (pruned (5/2) (blink_closure (5/2) 0 (7/10) dozing)) \<and>
   update_state (5/2) (5/2) 0 0 dozing = Inr (dozing\<lparr>state_change_time := 5/2\<rparr>, 1) \<and>
   beeps (dozing\<lparr>state_change_time := 5/2\<rparr>) = beeps dozing \<and>
   state (dozing\<lparr>state_change_time := 5/2\<rparr>) = NORMAL \<and>
   eyes_shut (7/10) (shut_at (5/2)) \<and> eyes_shut (7/10) (shut_at 10) \<and>
   run [shut_at (5/2), shut_at 10] dozing = Inr (dozing\<lparr>state_change_time := 10\<rparr>) \<and>
   beeps (dozing\<lparr>state_change_time := 10\<rparr>) = []"
  using zero_instant_no_override [of dozing "7/10" "5/2" 0 "5/2" 0 "[shut_at (5/2), shut_at 10]"]
  by (simp add: eyes_shut_at) (simp add: run_defs)

section \<open>Before calibration\<close>

text \<open>
  Claim C2 fails on the code: a face lost for two seconds during calibration leaves the
  monitor in DANGER with no threshold, and the next frame with a face raises TypeError at
  the comparison of line 93.
\<close>

theorem early_absence_crash:
  "run early_absence (init 0 0)
     = Inr ((init 0 0)\<lparr>face_lost_start := Some 0, state := DANGER,
                      last_alarm_time := 2, beeps := [2]\<rparr>) \<and>
   ear_threshold ((init 0 0)\<lparr>face_lost_start := Some 0, state := DANGER,
                      last_alarm_time := 2, beeps := [2]\<rparr>) = None \<and>
   run (early_absence @ [open_at (21/10)]) (init 0 0) = Inl TypeError"
  by (simp add: early_absence_def run_defs)

end
